theory Spec2Isabelle
  imports Complex_Main
begin

section \<open>Numbers of the source language\<close>

text \<open>
  The valuation engine is written in TypeScript; every numeric value is a JavaScript
  number. The model keeps the special values that the engine's own arithmetic can produce:
  \<open>NaN\<close> (reading a rate outside the curve gives \<open>undefined\<close>, and arithmetic on
  \<open>undefined\<close> gives \<open>NaN\<close>) and the two infinities (a division by zero, or
  \<open>Math.pow(0, -t)\<close>). Finite values are exact reals: binary rounding and overflow of
  finite arithmetic are not modelled, and a zero is always the positive zero.
\<close>

datatype jsnum = Fin real | PInf | NInf | NaN

fun js_neg :: "jsnum \<Rightarrow> jsnum" where
  "js_neg (Fin x) = Fin (- x)"
| "js_neg PInf = NInf"
| "js_neg NInf = PInf"
| "js_neg NaN = NaN"

fun js_add :: "jsnum \<Rightarrow> jsnum \<Rightarrow> jsnum" where
  "js_add (Fin x) (Fin y) = Fin (x + y)"
| "js_add NaN _ = NaN"
| "js_add _ NaN = NaN"
| "js_add PInf NInf = NaN"
| "js_add NInf PInf = NaN"
| "js_add PInf _ = PInf"
| "js_add _ PInf = PInf"
| "js_add NInf _ = NInf"
| "js_add _ NInf = NInf"

definition js_sub :: "jsnum \<Rightarrow> jsnum \<Rightarrow> jsnum" where
  "js_sub x y = js_add x (js_neg y)"

fun js_mul :: "jsnum \<Rightarrow> jsnum \<Rightarrow> jsnum" where
  "js_mul (Fin x) (Fin y) = Fin (x * y)"
| "js_mul NaN _ = NaN"
| "js_mul _ NaN = NaN"
| "js_mul PInf (Fin y) = (if y = 0 then NaN else if 0 < y then PInf else NInf)"
| "js_mul NInf (Fin y) = (if y = 0 then NaN else if 0 < y then NInf else PInf)"
| "js_mul (Fin x) PInf = (if x = 0 then NaN else if 0 < x then PInf else NInf)"
| "js_mul (Fin x) NInf = (if x = 0 then NaN else if 0 < x then NInf else PInf)"
| "js_mul PInf PInf = PInf"
| "js_mul NInf NInf = PInf"
| "js_mul PInf NInf = NInf"
| "js_mul NInf PInf = NInf"

fun js_div :: "jsnum \<Rightarrow> jsnum \<Rightarrow> jsnum" where
  "js_div (Fin x) (Fin y) =
     (if y \<noteq> 0 then Fin (x / y) else if x = 0 then NaN else if 0 < x then PInf else NInf)"
| "js_div NaN _ = NaN"
| "js_div _ NaN = NaN"
| "js_div (Fin x) PInf = Fin 0"
| "js_div (Fin x) NInf = Fin 0"
| "js_div PInf (Fin y) = (if 0 \<le> y then PInf else NInf)"
| "js_div NInf (Fin y) = (if 0 \<le> y then NInf else PInf)"
| "js_div PInf PInf = NaN"
| "js_div PInf NInf = NaN"
| "js_div NInf PInf = NaN"
| "js_div NInf NInf = NaN"

text \<open>\<open>Math.pow\<close> with an integer exponent, the only way the engine calls it.\<close>

fun js_pow :: "jsnum \<Rightarrow> int \<Rightarrow> jsnum" where
  "js_pow (Fin b) n =
     (if n = 0 then Fin 1
      else if 0 < n then Fin (b ^ nat n)
      else if b = 0 then PInf
      else Fin (1 / b ^ nat (- n)))"
| "js_pow PInf n = (if n = 0 then Fin 1 else if 0 < n then PInf else Fin 0)"
| "js_pow NInf n =
     (if n = 0 then Fin 1 else if 0 < n then (if even n then PInf else NInf) else Fin 0)"
| "js_pow NaN n = (if n = 0 then Fin 1 else NaN)"

text \<open>Comparisons: any comparison with \<open>NaN\<close> is false.\<close>

fun js_lt :: "jsnum \<Rightarrow> jsnum \<Rightarrow> bool" where
  "js_lt (Fin x) (Fin y) = (x < y)"
| "js_lt NaN _ = False"
| "js_lt _ NaN = False"
| "js_lt NInf NInf = False"
| "js_lt NInf _ = True"
| "js_lt _ NInf = False"
| "js_lt PInf _ = False"
| "js_lt _ PInf = True"

fun js_le :: "jsnum \<Rightarrow> jsnum \<Rightarrow> bool" where
  "js_le (Fin x) (Fin y) = (x \<le> y)"
| "js_le NaN _ = False"
| "js_le _ NaN = False"
| "js_le NInf _ = True"
| "js_le _ PInf = True"
| "js_le PInf _ = False"
| "js_le _ NInf = False"

text \<open>\<open>Math.round\<close> rounds half up: it is \<open>floor (x + 0.5)\<close>.\<close>

fun js_round :: "jsnum \<Rightarrow> jsnum" where
  "js_round (Fin x) = Fin (of_int \<lfloor>x + 1 / 2\<rfloor>)"
| "js_round PInf = PInf"
| "js_round NInf = NInf"
| "js_round NaN = NaN"

fun js_ceil :: "jsnum \<Rightarrow> jsnum" where
  "js_ceil (Fin x) = Fin (of_int \<lceil>x\<rceil>)"
| "js_ceil PInf = PInf"
| "js_ceil NInf = NInf"
| "js_ceil NaN = NaN"

fun js_min :: "jsnum \<Rightarrow> jsnum \<Rightarrow> jsnum" where
  "js_min (Fin x) (Fin y) = Fin (min x y)"
| "js_min NaN _ = NaN"
| "js_min _ NaN = NaN"
| "js_min NInf _ = NInf"
| "js_min _ NInf = NInf"
| "js_min PInf y = y"
| "js_min x PInf = x"

section \<open>Data model\<close>

text \<open>
  The interfaces \<open>CalculationParams\<close> and \<open>CalculationResult\<close> of the source. The
  optional fields are options; the engine fills in the defaults itself. Ages and year
  counts are integers of either sign and of any size, rates and amounts are finite reals.
  A fractional age and the value \<open>Infinity\<close> are outside the model. A loop counter is an
  integer here and a double in the source: the two agree below \<open>2 ^ 53\<close>, and from there
  on the source's \<open>t++\<close> no longer advances, so that a loop up to such a bound does not
  end in the source while it does here.
\<close>

record CalculationParams =
  annuityType :: string
  age :: int
  gender :: string
  interestRate :: real
  annualAmount :: real
  mortalityTable :: string
  duration :: "int option"
  deferralPeriod :: "int option"
  growthRate :: "real option"
  reversalRate :: "real option"
  spouseAge :: "int option"

record ProjectionPoint =
  year :: int
  payment :: jsnum
  cumulativePayment :: jsnum
  probability :: jsnum

record CalculationResult =
  presentValue :: jsnum
  monthlyPayment :: jsnum
  totalPayments :: jsnum
  lifeExpectancy :: jsnum
  projections :: "ProjectionPoint list"

text \<open>
  The only failure the runtime could raise in this code is a \<open>TypeError\<close>, when a
  property of \<open>undefined\<close> is read: the code has no \<open>throw\<close> of its own.
\<close>

datatype error = TypeError

section \<open>Mortality model\<close>

text \<open>
  In the functions below \<open>a\<close>, \<open>g\<close> and \<open>tb\<close> stand for the parameters \<open>age\<close>,
  \<open>gender\<close> and \<open>table\<close> of the source, \<open>amount\<close> for \<open>annualAmount\<close> and \<open>y\<close>
  for \<open>year\<close>: the source's names are the field names of the records here.

  Each curve of the source is
  \<open>Array.from({ length: 100 }, (_, i) => Math.min(base + (i * slope), cap))\<close>.
\<close>

definition ramp :: "real \<Rightarrow> real \<Rightarrow> real \<Rightarrow> real list" where
  "ramp base slope cap = map (\<lambda>i. min (base + (real i * slope)) cap) [0..<100]"

definition mortalityRates :: "(string \<times> (string \<times> real list) list) list" where
  "mortalityRates =
    [(''TGH05'',
        [(''male'', ramp (1 / 1000) (2 / 1000) (3 / 10)),
         (''female'', ramp (8 / 10000) (18 / 10000) (25 / 100))]),
     (''TGF05'',
        [(''male'', ramp (1 / 1000) (2 / 1000) (3 / 10)),
         (''female'', ramp (8 / 10000) (18 / 10000) (25 / 100))]),
     (''TV88-90'',
        [(''male'', ramp (9 / 10000) (19 / 10000) (28 / 100)),
         (''female'', ramp (9 / 10000) (19 / 10000) (28 / 100))]),
     (''TH00-02'',
        [(''male'', ramp (12 / 10000) (22 / 10000) (32 / 100)),
         (''female'', ramp (1 / 1000) (2 / 1000) (27 / 100))]),
     (''TF00-02'',
        [(''male'', ramp (12 / 10000) (22 / 10000) (32 / 100)),
         (''female'', ramp (1 / 1000) (2 / 1000) (27 / 100))])]"

text \<open>
  \<open>mortalityRates.TGH05.male\<close>: reading \<open>male\<close> of a missing table, or the length
  of a missing curve, would raise.
\<close>

definition defaultCurve :: "error + real list" where
  "defaultCurve =
     (case map_of mortalityRates ''TGH05'' of
        None \<Rightarrow> Inl TypeError
      | Some t \<Rightarrow> (case map_of t ''male'' of None \<Rightarrow> Inl TypeError | Some rs \<Rightarrow> Inr rs))"

text \<open>
  The table set and each table are plain objects, and a bracket read on a plain object
  also finds the properties every object inherits from \<open>Object.prototype\<close>. These are
  their names. A key that is none of them is called plain: on a plain key a read finds an
  own property or nothing.
\<close>

definition objectPrototypeKeys :: "string list" where
  "objectPrototypeKeys =
     [''constructor'', ''__proto__'', ''hasOwnProperty'', ''isPrototypeOf'',
      ''propertyIsEnumerable'', ''toLocaleString'', ''toString'', ''valueOf'',
      ''__defineGetter__'', ''__defineSetter__'', ''__lookupGetter__'', ''__lookupSetter__'']"

definition plain_key :: "string \<Rightarrow> bool" where
  "plain_key k = (k \<notin> set objectPrototypeKeys)"

text \<open>
  \<open>mortalityRates[table]?.[gender]\<close> on plain keys: \<open>None\<close> stands for
  \<open>undefined\<close>. For a key that is not plain the source reads a built-in function or
  object instead of a curve: with table \<open>TGH05\<close> and sex \<open>constructor\<close> the rates
  are the function \<open>Object\<close>, and with table \<open>constructor\<close> and sex \<open>caller\<close> the
  read raises a \<open>TypeError\<close>. The embedding does not reproduce this: it treats such
  a key as one that is not found. The sexes \<open>male\<close> and \<open>female\<close> and the five
  table ids are plain; what is proved below about the curve of an arbitrary table id and
  sex is stated for plain keys, or for a result the engine has returned.
\<close>

definition lookupCurve :: "string \<Rightarrow> string \<Rightarrow> real list option" where
  "lookupCurve tb g =
     (case map_of mortalityRates tb of None \<Rightarrow> None | Some t \<Rightarrow> map_of t g)"

text \<open>
  \<open>mortalityRates[table]?.[gender] || mortalityRates.TGH05.male\<close>, the first line of
  both mortality functions. A curve is an array and so never falsy.
\<close>

definition resolveCurve :: "string \<Rightarrow> string \<Rightarrow> error + real list" where
  "resolveCurve tb g =
     (case lookupCurve tb g of None \<Rightarrow> defaultCurve | Some rs \<Rightarrow> Inr rs)"

text \<open>
  \<open>rates[currentAge]\<close> as an operand of arithmetic: outside the array the read gives
  \<open>undefined\<close>, which arithmetic turns into \<open>NaN\<close>.
\<close>

definition rate_at :: "real list \<Rightarrow> int \<Rightarrow> jsnum" where
  "rate_at rates k = (if 0 \<le> k \<and> k < int (length rates) then Fin (rates ! nat k) else NaN)"

text \<open>The loop of \<open>calculateSurvivalProbability\<close>, from its state \<open>(i, probability)\<close>.\<close>

function survival_loop :: "real list \<Rightarrow> int \<Rightarrow> int \<Rightarrow> int \<Rightarrow> jsnum \<Rightarrow> jsnum" where
  "survival_loop rates a years i p =
     (if i < years then
        (let currentAge = a + i in
         if currentAge \<ge> int (length rates) then p
         else survival_loop rates a years (i + 1)
                (js_mul p (js_sub (Fin 1) (rate_at rates currentAge))))
      else p)"
  by pat_completeness auto
termination
  by (relation "measure (\<lambda>(rates, a, years, i, p). nat (years - i))") auto

definition calculateSurvivalProbability :: "int \<Rightarrow> string \<Rightarrow> string \<Rightarrow> int \<Rightarrow> error + jsnum" where
  "calculateSurvivalProbability a g tb years =
     (case resolveCurve tb g of
        Inl e \<Rightarrow> Inl e
      | Inr rates \<Rightarrow> Inr (survival_loop rates a years 0 (Fin 1)))"

text \<open>
  The loop of \<open>calculateLifeExpectancy\<close>. It returns the loop's variables
  \<open>(i, expectancy, probability)\<close> as they are when the loop is left.
\<close>

function lifeExpectancy_loop :: "real list \<Rightarrow> int \<Rightarrow> int \<Rightarrow> jsnum \<Rightarrow> jsnum \<Rightarrow> int \<times> jsnum \<times> jsnum" where
  "lifeExpectancy_loop rates a i e p =
     (if i < 50 then
        (let currentAge = a + i in
         if currentAge \<ge> int (length rates) then (i, e, p)
         else
           (let p' = js_mul p (js_sub (Fin 1) (rate_at rates currentAge));
                e' = js_add e p'
            in if js_lt p' (Fin (1 / 100)) then (i, e', p')
               else lifeExpectancy_loop rates a (i + 1) e' p'))
      else (i, e, p))"
  by pat_completeness auto
termination
  by (relation "measure (\<lambda>(rates, a, i, e, p). nat (50 - i))") auto

definition lifeExpectancy_state :: "int \<Rightarrow> string \<Rightarrow> string \<Rightarrow> error + (int \<times> jsnum \<times> jsnum)" where
  "lifeExpectancy_state a g tb =
     (case resolveCurve tb g of
        Inl e \<Rightarrow> Inl e
      | Inr rates \<Rightarrow> Inr (lifeExpectancy_loop rates a 0 (Fin 0) (Fin 1)))"

definition calculateLifeExpectancy :: "int \<Rightarrow> string \<Rightarrow> string \<Rightarrow> error + jsnum" where
  "calculateLifeExpectancy a g tb =
     (case lifeExpectancy_state a g tb of
        Inl e \<Rightarrow> Inl e
      | Inr (i, expectancy, p) \<Rightarrow>
          Inr (js_div (js_round (js_mul expectancy (Fin 10))) (Fin 10)))"

section \<open>Annuity valuation engine\<close>

text \<open>The loop of \<open>calculateSimpleAnnuity\<close>, from its state \<open>(t, pv)\<close>.\<close>

function simple_loop :: "int \<Rightarrow> string \<Rightarrow> string \<Rightarrow> real \<Rightarrow> real \<Rightarrow> int \<Rightarrow> jsnum \<Rightarrow> error + jsnum" where
  "simple_loop a g tb amount discountRate t pv =
     (if t \<le> 50 then
        (case calculateSurvivalProbability a g tb t of
           Inl e \<Rightarrow> Inl e
         | Inr survivalProb \<Rightarrow>
             (let discountFactor = js_pow (Fin (1 + discountRate)) (- t);
                  pv' = js_add pv (js_mul (js_mul (Fin amount) survivalProb) discountFactor)
              in if js_lt survivalProb (Fin (1 / 100)) then Inr pv'
                 else simple_loop a g tb amount discountRate (t + 1) pv'))
      else Inr pv)"
  by pat_completeness auto
termination
  by (relation "measure (\<lambda>(a, g, tb, amount, discountRate, t, pv). nat (51 - t))") auto

definition calculateSimpleAnnuity :: "int \<Rightarrow> string \<Rightarrow> string \<Rightarrow> real \<Rightarrow> real \<Rightarrow> error + jsnum" where
  "calculateSimpleAnnuity a g tb amount discountRate =
     simple_loop a g tb amount discountRate 1 (Fin 0)"

definition calculateReversibleAnnuity ::
  "int \<Rightarrow> string \<Rightarrow> int \<Rightarrow> string \<Rightarrow> real \<Rightarrow> real \<Rightarrow> real \<Rightarrow> error + jsnum" where
  "calculateReversibleAnnuity a g spouse tb amount discountRate reversal =
     (case calculateSimpleAnnuity a g tb amount discountRate of
        Inl e \<Rightarrow> Inl e
      | Inr primaryAnnuity \<Rightarrow>
          (let spouseGender = (if g = ''male'' then ''female'' else ''male'');
               reversalAmount = amount * (reversal / 100)
           in case calculateSimpleAnnuity spouse spouseGender tb reversalAmount discountRate of
                Inl e \<Rightarrow> Inl e
              | Inr spouseAnnuity \<Rightarrow>
                  Inr (js_add primaryAnnuity (js_mul spouseAnnuity (Fin (6 / 10))))))"

text \<open>The loop of \<open>calculateTemporaryAnnuity\<close>: a fixed horizon, no early exit.\<close>

function temporary_loop :: "int \<Rightarrow> string \<Rightarrow> string \<Rightarrow> real \<Rightarrow> real \<Rightarrow> int \<Rightarrow> int \<Rightarrow> jsnum \<Rightarrow> error + jsnum" where
  "temporary_loop a g tb amount discountRate dur t pv =
     (if t \<le> dur then
        (case calculateSurvivalProbability a g tb t of
           Inl e \<Rightarrow> Inl e
         | Inr survivalProb \<Rightarrow>
             (let discountFactor = js_pow (Fin (1 + discountRate)) (- t);
                  pv' = js_add pv (js_mul (js_mul (Fin amount) survivalProb) discountFactor)
              in temporary_loop a g tb amount discountRate dur (t + 1) pv'))
      else Inr pv)"
  by pat_completeness auto
termination
  by (relation "measure (\<lambda>(a, g, tb, amount, discountRate, dur, t, pv). nat (dur + 1 - t))") auto

definition calculateTemporaryAnnuity :: "int \<Rightarrow> string \<Rightarrow> string \<Rightarrow> real \<Rightarrow> real \<Rightarrow> int \<Rightarrow> error + jsnum" where
  "calculateTemporaryAnnuity a g tb amount discountRate dur =
     temporary_loop a g tb amount discountRate dur 1 (Fin 0)"

text \<open>
  \<open>calculateDeferredAnnuity\<close> runs the loop of the simple annuity from
  \<open>t = deferralPeriod + 1\<close>.
\<close>

definition calculateDeferredAnnuity :: "int \<Rightarrow> string \<Rightarrow> string \<Rightarrow> real \<Rightarrow> real \<Rightarrow> int \<Rightarrow> error + jsnum" where
  "calculateDeferredAnnuity a g tb amount discountRate deferral =
     simple_loop a g tb amount discountRate (deferral + 1) (Fin 0)"

text \<open>The loop of \<open>calculateGrowingAnnuity\<close>, from its state \<open>(t, pv)\<close>.\<close>

function growing_loop :: "int \<Rightarrow> string \<Rightarrow> string \<Rightarrow> real \<Rightarrow> jsnum \<Rightarrow> real \<Rightarrow> int \<Rightarrow> jsnum \<Rightarrow> error + jsnum" where
  "growing_loop a g tb amount realDiscountRate growth t pv =
     (if t \<le> 50 then
        (case calculateSurvivalProbability a g tb t of
           Inl e \<Rightarrow> Inl e
         | Inr survivalProb \<Rightarrow>
             (let pay = js_mul (Fin amount) (js_pow (Fin (1 + growth / 100)) (t - 1));
                  discountFactor = js_pow (js_add (Fin 1) realDiscountRate) (- t);
                  pv' = js_add pv (js_mul (js_mul pay survivalProb) discountFactor)
              in if js_lt survivalProb (Fin (1 / 100)) then Inr pv'
                 else growing_loop a g tb amount realDiscountRate growth (t + 1) pv'))
      else Inr pv)"
  by pat_completeness auto
termination
  by (relation "measure (\<lambda>(a, g, tb, amount, rdr, growth, t, pv). nat (51 - t))") auto

definition calculateGrowingAnnuity :: "int \<Rightarrow> string \<Rightarrow> string \<Rightarrow> real \<Rightarrow> real \<Rightarrow> real \<Rightarrow> error + jsnum" where
  "calculateGrowingAnnuity a g tb amount discountRate growth =
     (let realDiscountRate =
            js_div (Fin (discountRate - growth / 100)) (Fin (1 + growth / 100))
      in growing_loop a g tb amount realDiscountRate growth 1 (Fin 0))"

text \<open>The defaults of the destructuring at the head of \<open>calculateAnnuity\<close>.\<close>

definition duration_of :: "CalculationParams \<Rightarrow> int" where
  "duration_of params = (case duration params of None \<Rightarrow> 30 | Some d \<Rightarrow> d)"

definition deferralPeriod_of :: "CalculationParams \<Rightarrow> int" where
  "deferralPeriod_of params = (case deferralPeriod params of None \<Rightarrow> 0 | Some d \<Rightarrow> d)"

definition growthRate_of :: "CalculationParams \<Rightarrow> real" where
  "growthRate_of params = (case growthRate params of None \<Rightarrow> 0 | Some x \<Rightarrow> x)"

definition reversalRate_of :: "CalculationParams \<Rightarrow> real" where
  "reversalRate_of params = (case reversalRate params of None \<Rightarrow> 60 | Some x \<Rightarrow> x)"

definition spouseAge_of :: "CalculationParams \<Rightarrow> int" where
  "spouseAge_of params = (case spouseAge params of None \<Rightarrow> age params - 3 | Some s \<Rightarrow> s)"

text \<open>
  The \<open>switch\<close> on the annuity type: the present value before the final rounding.
\<close>

definition presentValue_of :: "CalculationParams \<Rightarrow> error + jsnum" where
  "presentValue_of params =
     (let discountRate = interestRate params / 100 in
      if annuityType params = ''simple'' then
        calculateSimpleAnnuity (age params) (gender params) (mortalityTable params)
          (annualAmount params) discountRate
      else if annuityType params = ''reversible'' then
        calculateReversibleAnnuity (age params) (gender params) (spouseAge_of params)
          (mortalityTable params) (annualAmount params) discountRate (reversalRate_of params)
      else if annuityType params = ''temporary'' then
        calculateTemporaryAnnuity (age params) (gender params) (mortalityTable params)
          (annualAmount params) discountRate (duration_of params)
      else if annuityType params = ''deferred'' then
        calculateDeferredAnnuity (age params) (gender params) (mortalityTable params)
          (annualAmount params) discountRate (deferralPeriod_of params)
      else if annuityType params = ''growing'' then
        calculateGrowingAnnuity (age params) (gender params) (mortalityTable params)
          (annualAmount params) discountRate (growthRate_of params)
      else
        calculateSimpleAnnuity (age params) (gender params) (mortalityTable params)
          (annualAmount params) discountRate)"

text \<open>The payment of one projected year, before rounding: the three \<open>if\<close>s in order.\<close>

definition payment_of :: "CalculationParams \<Rightarrow> int \<Rightarrow> jsnum" where
  "payment_of params y =
     (let pay0 = Fin (annualAmount params);
          pay1 = (if annuityType params = ''growing''
                  then js_mul (Fin (annualAmount params))
                         (js_pow (Fin (1 + growthRate_of params / 100)) (y - 1))
                  else pay0);
          pay2 = (if annuityType params = ''temporary'' \<and> y > duration_of params
                  then Fin 0 else pay1)
      in if annuityType params = ''deferred'' \<and> y \<le> deferralPeriod_of params
         then Fin 0 else pay2)"

text \<open>
  The projection loop, from its state \<open>(year, totalPayments, projections)\<close>; \<open>le\<close> is
  the life expectancy computed before. (Line 146 of the source holds a closing parenthesis
  on its own, which belongs to no statement; the loop is read without it.)
\<close>

function projection_loop ::
  "CalculationParams \<Rightarrow> jsnum \<Rightarrow> int \<Rightarrow> jsnum \<Rightarrow> ProjectionPoint list
     \<Rightarrow> error + (jsnum \<times> ProjectionPoint list)" where
  "projection_loop params le y tot projs =
     (if js_le (Fin (of_int y)) (js_min (Fin 30) (js_ceil le)) then
        (case calculateSurvivalProbability (age params) (gender params)
                (mortalityTable params) y of
           Inl e \<Rightarrow> Inl e
         | Inr survivalProb \<Rightarrow>
             (let pay = payment_of params y;
                  tot' = js_add tot (js_mul pay survivalProb)
              in projection_loop params le (y + 1) tot'
                   (projs @
                    [\<lparr>year = y,
                      payment = js_round pay,
                      cumulativePayment = js_round tot',
                      probability = js_div (js_round (js_mul survivalProb (Fin 100))) (Fin 100)\<rparr>])))
      else Inr (tot, projs))"
  by pat_completeness auto
termination
proof (relation "measure (\<lambda>(params, le, y, tot, projs). nat (31 - y))")
  show "wf (measure (\<lambda>(params, le, y, tot, projs). nat (31 - y)))"
    by simp
next
  fix params :: CalculationParams and le :: jsnum and y :: int
    and tot :: jsnum and projs :: "ProjectionPoint list"
    and x2 :: jsnum and x xa :: jsnum
  assume "js_le (Fin (of_int y)) (js_min (Fin 30) (js_ceil le))"
  then have "y \<le> 30"
    by (cases le) (auto split: if_splits)
  then show "((params, le, y + 1, xa, projs @
                 [\<lparr>year = y, payment = js_round x, cumulativePayment = js_round xa,
                   probability = js_div (js_round (js_mul x2 (Fin 100))) (Fin 100)\<rparr>]),
              (params, le, y, tot, projs))
             \<in> measure (\<lambda>(params, le, y, tot, projs). nat (31 - y))"
    by simp
qed

definition calculateAnnuity :: "CalculationParams \<Rightarrow> error + CalculationResult" where
  "calculateAnnuity params =
     (case calculateLifeExpectancy (age params) (gender params) (mortalityTable params) of
        Inl e \<Rightarrow> Inl e
      | Inr le \<Rightarrow>
          (case presentValue_of params of
             Inl e \<Rightarrow> Inl e
           | Inr pv \<Rightarrow>
               (case projection_loop params le 1 (Fin 0) [] of
                  Inl e \<Rightarrow> Inl e
                | Inr (tot, projs) \<Rightarrow>
                    Inr \<lparr>presentValue = js_round pv,
                         monthlyPayment = js_round (Fin (annualAmount params / 12)),
                         totalPayments = js_round tot,
                         lifeExpectancy = le,
                         projections = projs\<rparr>)))"

text \<open>The loop equations are unfolded on demand only.\<close>

declare survival_loop.simps [simp del]
declare lifeExpectancy_loop.simps [simp del]
declare simple_loop.simps [simp del]
declare temporary_loop.simps [simp del]
declare growing_loop.simps [simp del]
declare projection_loop.simps [simp del]

section \<open>Auxiliary notions for the proofs\<close>

text \<open>The curve a table id and a sex resolve to, as a plain list.\<close>

definition curve_of :: "string \<Rightarrow> string \<Rightarrow> real list" where
  "curve_of tb g = (case resolveCurve tb g of Inl e \<Rightarrow> [] | Inr rs \<Rightarrow> rs)"

text \<open>
  The running survival probability after \<open>k\<close> years, as the survival loop computes it,
  and the factor one year of age contributes.
\<close>

definition survival_js :: "real list \<Rightarrow> int \<Rightarrow> nat \<Rightarrow> jsnum" where
  "survival_js rates a k = survival_loop rates a (int k) 0 (Fin 1)"

definition factor_js :: "real list \<Rightarrow> int \<Rightarrow> jsnum" where
  "factor_js rates k = js_sub (Fin 1) (rate_at rates k)"

text \<open>
  For an age inside the table the same probability is a product of reals; \<open>js_sum f n\<close>
  adds \<open>f 1\<close> to \<open>f n\<close> from the left, as an accumulating loop does.
\<close>

definition survival_real :: "real list \<Rightarrow> nat \<Rightarrow> nat \<Rightarrow> real" where
  "survival_real rates a k = (\<Prod>j<min k (length rates - a). 1 - rates ! (a + j))"

fun js_sum :: "(nat \<Rightarrow> jsnum) \<Rightarrow> nat \<Rightarrow> jsnum" where
  "js_sum f 0 = Fin 0"
| "js_sum f (Suc n) = js_add (js_sum f n) (f (Suc n))"

text \<open>
  The projection loop in closed form. \<open>proj_count le\<close> is the number of rounds of the
  loop, the count of years \<open>1, 2, ...\<close> that are at most
  \<open>Math.min(30, Math.ceil(le))\<close>; \<open>surv_of params k\<close> is the survival probability
  of year \<open>k\<close>; \<open>proj_total params k\<close> is the running total after year \<open>k\<close>; and
  \<open>proj_point params k\<close> is the entry pushed in year \<open>k\<close>.
\<close>

definition proj_count :: "jsnum \<Rightarrow> nat" where
  "proj_count le = (case js_min (Fin 30) (js_ceil le) of Fin b \<Rightarrow> nat \<lfloor>b\<rfloor> | _ \<Rightarrow> 0)"

definition surv_of :: "CalculationParams \<Rightarrow> nat \<Rightarrow> jsnum" where
  "surv_of params k =
     survival_js (curve_of (mortalityTable params) (gender params)) (age params) k"

fun proj_total :: "CalculationParams \<Rightarrow> nat \<Rightarrow> jsnum" where
  "proj_total params 0 = Fin 0"
| "proj_total params (Suc k) =
     js_add (proj_total params k) (js_mul (payment_of params (int (Suc k))) (surv_of params (Suc k)))"

definition proj_point :: "CalculationParams \<Rightarrow> nat \<Rightarrow> ProjectionPoint" where
  "proj_point params k =
     \<lparr>year = int k,
      payment = js_round (payment_of params (int k)),
      cumulativePayment = js_round (proj_total params k),
      probability = js_div (js_round (js_mul (surv_of params k) (Fin 100))) (Fin 100)\<rparr>"

text \<open>
  The values the two fallible computations of \<open>calculateAnnuity\<close> return; in the
  embedding they always return one (lemmas \<open>calculateLifeExpectancy_Inr\<close> and
  \<open>presentValue_of_Inr\<close>).
\<close>

definition le_value :: "CalculationParams \<Rightarrow> jsnum" where
  "le_value params =
     (case calculateLifeExpectancy (age params) (gender params) (mortalityTable params) of
        Inl e \<Rightarrow> NaN | Inr x \<Rightarrow> x)"

definition pv_value :: "CalculationParams \<Rightarrow> jsnum" where
  "pv_value params = (case presentValue_of params of Inl e \<Rightarrow> NaN | Inr v \<Rightarrow> v)"

text \<open>
  \<open>stops_at S h n\<close>: a loop over the years \<open>1, 2, ...\<close> with horizon \<open>h\<close>, which is
  left after the first year whose running probability \<open>S k\<close> is below 0.01, processes
  exactly the years \<open>1\<close> to \<open>n\<close>. \<open>simple_term\<close> is what the simple annuity adds in
  year \<open>t\<close>.
\<close>

definition stops_at :: "(nat \<Rightarrow> jsnum) \<Rightarrow> nat \<Rightarrow> nat \<Rightarrow> bool" where
  "stops_at S h n \<longleftrightarrow>
     n \<le> h \<and> (\<forall>k \<in> {1..<n}. \<not> js_lt (S k) (Fin (1 / 100)))
       \<and> (n < h \<longrightarrow> 1 \<le> n \<and> js_lt (S n) (Fin (1 / 100)))"

definition simple_term :: "int \<Rightarrow> string \<Rightarrow> string \<Rightarrow> real \<Rightarrow> real \<Rightarrow> nat \<Rightarrow> jsnum" where
  "simple_term a g tb amount discountRate t =
     js_mul (js_mul (Fin amount) (survival_js (curve_of tb g) a t))
       (js_pow (Fin (1 + discountRate)) (- int t))"

text \<open>
  The loop of the simple annuity once more, with the running survival probability \<open>p\<close>
  of year \<open>k\<close> carried from year to year instead of recomputed: it serves to evaluate
  the annuity at a concrete input (lemma \<open>simple_loop_pass\<close>).
\<close>

function simple_pass :: "real list \<Rightarrow> int \<Rightarrow> real \<Rightarrow> real \<Rightarrow> nat \<Rightarrow> jsnum \<Rightarrow> jsnum \<Rightarrow> jsnum" where
  "simple_pass rates a amount r k p pv =
     (if k \<le> 50 then
        (if js_lt p (Fin (1 / 100))
         then js_add pv (js_mul (js_mul (Fin amount) p) (js_pow (Fin (1 + r)) (- int k)))
         else simple_pass rates a amount r (k + 1)
                (if a + int k < int (length rates) then js_mul p (factor_js rates (a + int k))
                 else p)
                (js_add pv (js_mul (js_mul (Fin amount) p) (js_pow (Fin (1 + r)) (- int k)))))
      else pv)"
  by pat_completeness auto
termination
  by (relation "measure (\<lambda>(rates, a, amount, r, k, p, pv). 51 - k)") auto

declare simple_pass.simps [simp del]

text \<open>
  Concrete parameter records, used to evaluate the engine: scenarios A, B and D of the
  specification, two records of type \<open>growing\<close>, a record with a negative age, a
  reversible annuity whose reversal rate and spouse age are not the defaults, and a
  deferred annuity on another table.
\<close>

definition scenario_A :: CalculationParams where
  "scenario_A =
     \<lparr>annuityType = ''simple'', age = 65, gender = ''male'', interestRate = 5 / 2,
      annualAmount = 12000, mortalityTable = ''TGH05'', duration = None,
      deferralPeriod = None, growthRate = None, reversalRate = None, spouseAge = None\<rparr>"

definition scenario_B :: CalculationParams where
  "scenario_B = scenario_A\<lparr>annuityType := ''temporary'', duration := Some 5\<rparr>"

definition scenario_D :: CalculationParams where
  "scenario_D =
     scenario_A\<lparr>annuityType := ''reversible'', reversalRate := Some 60, spouseAge := Some 62\<rparr>"

definition scenario_growing :: CalculationParams where
  "scenario_growing = scenario_A\<lparr>annuityType := ''growing'', growthRate := Some 3\<rparr>"

definition scenario_shrinking :: CalculationParams where
  "scenario_shrinking = scenario_A\<lparr>annuityType := ''growing'', growthRate := Some (- 200)\<rparr>"

definition scenario_negative_age :: CalculationParams where
  "scenario_negative_age = scenario_A\<lparr>age := - 1\<rparr>"

definition scenario_R :: CalculationParams where
  "scenario_R =
     scenario_A\<lparr>annuityType := ''reversible'', reversalRate := Some 80, spouseAge := Some 60\<rparr>"

definition scenario_deferred :: CalculationParams where
  "scenario_deferred =
     \<lparr>annuityType = ''deferred'', age = 40, gender = ''female'', interestRate = 1,
      annualAmount = 12000, mortalityTable = ''TV88-90'', duration = None,
      deferralPeriod = Some 10, growthRate = None, reversalRate = None, spouseAge = None\<rparr>"

lemmas scenario_defs =
  scenario_A_def scenario_B_def scenario_D_def scenario_growing_def scenario_shrinking_def
  scenario_negative_age_def scenario_R_def scenario_deferred_def

section \<open>Curve resolution\<close>

lemma defaultCurve_eq: "defaultCurve = Inr (ramp (1 / 1000) (2 / 1000) (3 / 10))"
  by (simp add: defaultCurve_def mortalityRates_def)

lemma resolveCurve_Inr: "resolveCurve tb g = Inr (curve_of tb g)"
  by (simp add: curve_of_def resolveCurve_def defaultCurve_eq split: option.splits)

lemma length_ramp: "length (ramp b s c) = 100"
  by (simp add: ramp_def)

lemma ramp_bounds:
  assumes "0 \<le> b" "0 \<le> s" "0 \<le> c" "c \<le> 1" "x \<in> set (ramp b s c)"
  shows "0 \<le> x \<and> x \<le> 1"
  using assms by (auto simp: ramp_def min_def)

lemma curve_of_cases:
  "curve_of tb g \<in>
     {ramp (1 / 1000) (2 / 1000) (3 / 10), ramp (8 / 10000) (18 / 10000) (25 / 100),
      ramp (9 / 10000) (19 / 10000) (28 / 100), ramp (12 / 10000) (22 / 10000) (32 / 100),
      ramp (1 / 1000) (2 / 1000) (27 / 100)}"
  by (simp add: curve_of_def resolveCurve_def lookupCurve_def defaultCurve_eq
        mortalityRates_def split: option.splits)

lemma length_curve_of: "length (curve_of tb g) = 100"
  using curve_of_cases [of tb g] by (auto simp: length_ramp)

lemma curve_of_bounds: "x \<in> set (curve_of tb g) \<Longrightarrow> 0 \<le> x \<and> x \<le> 1"
  using curve_of_cases [of tb g] by (auto dest!: ramp_bounds [rotated -1])

section \<open>The survival loop, one year at a time\<close>

lemma survival_loop_snoc:
  "i \<le> y \<Longrightarrow> a + y < int (length rates) \<Longrightarrow>
   survival_loop rates a (y + 1) i p =
     js_mul (survival_loop rates a y i p) (factor_js rates (a + y))"
proof (induction rates a y i p rule: survival_loop.induct)
  case (1 rates a years i p)
  show ?case
  proof (cases "i < years")
    case True
    with 1 show ?thesis
      by (subst survival_loop.simps, subst (2) survival_loop.simps) (simp add: Let_def)
  next
    case False
    with 1 have "i = years" by simp
    with 1 show ?thesis
      by (subst survival_loop.simps, subst (2) survival_loop.simps, subst survival_loop.simps)
         (simp add: Let_def factor_js_def)
  qed
qed

lemma survival_loop_exhausted:
  "i \<le> y \<Longrightarrow> int (length rates) \<le> a + y \<Longrightarrow>
   survival_loop rates a (y + 1) i p = survival_loop rates a y i p"
proof (induction rates a y i p rule: survival_loop.induct)
  case (1 rates a years i p)
  show ?case
  proof (cases "i < years")
    case True
    with 1 show ?thesis
      by (subst survival_loop.simps, subst (2) survival_loop.simps) (simp add: Let_def)
  next
    case False
    with 1 have "i = years" by simp
    with 1 show ?thesis
      by (subst survival_loop.simps, subst (2) survival_loop.simps) (simp add: Let_def)
  qed
qed

lemma survival_loop_no_years: "y \<le> i \<Longrightarrow> survival_loop rates a y i p = p"
  by (subst survival_loop.simps) simp

lemma survival_js_0: "survival_js rates a 0 = Fin 1"
  by (simp add: survival_js_def survival_loop.simps)

lemma survival_js_Suc:
  "survival_js rates a (Suc k) =
     (if a + int k < int (length rates)
      then js_mul (survival_js rates a k) (factor_js rates (a + int k))
      else survival_js rates a k)"
  using survival_loop_snoc [of 0 "int k" a rates "Fin 1"]
        survival_loop_exhausted [of 0 "int k" rates a "Fin 1"]
  by (simp add: survival_js_def add.commute)

lemma survival_real_0: "survival_real rates a 0 = 1"
  by (simp add: survival_real_def)

lemma survival_real_Suc:
  "survival_real rates a (Suc k) =
     (if a + k < length rates then survival_real rates a k * (1 - rates ! (a + k))
      else survival_real rates a k)"
proof (cases "a + k < length rates")
  case True
  then have "min (Suc k) (length rates - a) = Suc (min k (length rates - a))"
    and "min k (length rates - a) = k" by auto
  with True show ?thesis by (simp add: survival_real_def)
next
  case False
  then have "min (Suc k) (length rates - a) = min k (length rates - a)" by auto
  with False show ?thesis by (simp add: survival_real_def)
qed

lemma survival_js_Fin:
  "0 \<le> a \<Longrightarrow> survival_js rates a k = Fin (survival_real rates (nat a) k)"
proof (induction k)
  case 0
  show ?case by (simp add: survival_js_0 survival_real_0)
next
  case (Suc k)
  have "a + int k < int (length rates) \<longleftrightarrow> nat a + k < length rates"
    using Suc.prems by auto
  moreover have "a + int k < int (length rates) \<Longrightarrow>
      factor_js rates (a + int k) = Fin (1 - rates ! (nat a + k))"
    using Suc.prems by (simp add: factor_js_def rate_at_def js_sub_def nat_add_distrib)
  ultimately show ?case
    using Suc by (simp add: survival_js_Suc survival_real_Suc)
qed

lemma survival_js_NaN:
  "a < 0 \<Longrightarrow> survival_js rates a (Suc k) = NaN"
proof (induction k)
  case 0
  then show ?case
    by (simp add: survival_js_Suc survival_js_0 factor_js_def rate_at_def js_sub_def)
next
  case (Suc k)
  then show ?case by (simp add: survival_js_Suc [of rates a "Suc k"])
qed

lemma survival_real_bounds:
  assumes "\<And>x. x \<in> set rates \<Longrightarrow> 0 \<le> x \<and> x \<le> 1"
  shows "0 \<le> survival_real rates a k \<and> survival_real rates a k \<le> 1"
proof -
  have "\<And>j. j < min k (length rates - a) \<Longrightarrow>
      0 \<le> 1 - rates ! (a + j) \<and> 1 - rates ! (a + j) \<le> 1"
    using assms by (simp add: less_diff_conv add.commute)
  then show ?thesis
    unfolding survival_real_def
    by (auto intro!: prod_nonneg prod_le_1)
qed

lemma survival_real_mono:
  assumes "\<And>x. x \<in> set rates \<Longrightarrow> 0 \<le> x \<and> x \<le> 1"
  shows "survival_real rates a (Suc k) \<le> survival_real rates a k"
proof (cases "a + k < length rates")
  case True
  have "0 \<le> rates ! (a + k)" "rates ! (a + k) \<le> 1"
    using assms True by auto
  moreover have "0 \<le> survival_real rates a k"
    using survival_real_bounds [OF assms] by simp
  ultimately have "survival_real rates a k * (1 - rates ! (a + k)) \<le> survival_real rates a k * 1"
    by (intro mult_left_mono) auto
  with True show ?thesis by (simp add: survival_real_Suc)
next
  case False
  then show ?thesis by (simp add: survival_real_Suc)
qed

section \<open>The life-expectancy loop\<close>

lemma lifeExpectancy_loop_char:
  fixes rates :: "real list" and a :: int
  defines "S \<equiv> survival_js rates a"
  assumes "i \<le> 50"
    and "a + int i \<le> int (length rates) \<or> i = 0"
    and "\<forall>k. 1 \<le> k \<and> k \<le> i \<longrightarrow> \<not> js_lt (S k) (Fin (1 / 100))"
  shows "\<exists>n j. lifeExpectancy_loop rates a (int i) (js_sum S i) (S i) = (j, js_sum S n, S n)
           \<and> i \<le> n \<and> n \<le> 50 \<and> int n \<le> max 0 (int (length rates) - a)
           \<and> (\<forall>k. 1 \<le> k \<and> k < n \<longrightarrow> \<not> js_lt (S k) (Fin (1 / 100)))
           \<and> (n < 50 \<and> a + int n < int (length rates) \<longrightarrow> 1 \<le> n \<and> js_lt (S n) (Fin (1 / 100)))
           \<and> (j = int n \<or> j + 1 = int n)"
  using assms(2-)
proof (induction "50 - i" arbitrary: i)
  case 0
  then have i: "i = 50" by simp
  have "lifeExpectancy_loop rates a (int i) (js_sum S i) (S i) = (int i, js_sum S i, S i)"
    using i by (subst lifeExpectancy_loop.simps) simp
  moreover have "int i \<le> max 0 (int (length rates) - a)"
    using 0 i by auto
  ultimately show ?case
    using 0 i by (intro exI [of _ i] exI [of _ "int i"]) auto
next
  case (Suc m)
  then have i: "i < 50" by simp
  show ?case
  proof (cases "int (length rates) \<le> a + int i")
    case True
    have "lifeExpectancy_loop rates a (int i) (js_sum S i) (S i) = (int i, js_sum S i, S i)"
      using i True by (subst lifeExpectancy_loop.simps) (simp add: Let_def)
    moreover have "int i \<le> max 0 (int (length rates) - a)"
      using Suc.prems by auto
    ultimately show ?thesis
      using Suc.prems True by (intro exI [of _ i] exI [of _ "int i"]) auto
  next
    case False
    then have inside: "a + int i < int (length rates)" by simp
    have p': "js_mul (S i) (js_sub (Fin 1) (rate_at rates (a + int i))) = S (Suc i)"
      using inside by (simp add: S_def survival_js_Suc factor_js_def)
    have e': "js_add (js_sum S i) (S (Suc i)) = js_sum S (Suc i)"
      by simp
    show ?thesis
    proof (cases "js_lt (S (Suc i)) (Fin (1 / 100))")
      case True
      have "lifeExpectancy_loop rates a (int i) (js_sum S i) (S i)
              = (int i, js_sum S (Suc i), S (Suc i))"
        using i inside True
        by (subst lifeExpectancy_loop.simps) (simp add: Let_def p')
      moreover have "int (Suc i) \<le> max 0 (int (length rates) - a)"
        using inside by auto
      ultimately show ?thesis
        using Suc.prems True i
        by (intro exI [of _ "Suc i"] exI [of _ "int i"]) (auto simp: less_Suc_eq_le)
    next
      case False
      have step: "lifeExpectancy_loop rates a (int i) (js_sum S i) (S i)
              = lifeExpectancy_loop rates a (int (Suc i)) (js_sum S (Suc i)) (S (Suc i))"
        using i inside False
        by (subst lifeExpectancy_loop.simps) (simp add: Let_def p' add.commute)
      have "m = 50 - Suc i" using Suc.hyps(2) by simp
      moreover have "Suc i \<le> 50" using i by simp
      moreover have "a + int (Suc i) \<le> int (length rates) \<or> Suc i = 0"
        using inside by simp
      moreover have "\<forall>k. 1 \<le> k \<and> k \<le> Suc i \<longrightarrow> \<not> js_lt (S k) (Fin (1 / 100))"
        using Suc.prems(3) False by (auto simp: le_Suc_eq)
      ultimately obtain n j where
        "lifeExpectancy_loop rates a (int (Suc i)) (js_sum S (Suc i)) (S (Suc i))
           = (j, js_sum S n, S n)"
        "Suc i \<le> n" "n \<le> 50" "int n \<le> max 0 (int (length rates) - a)"
        "\<forall>k. 1 \<le> k \<and> k < n \<longrightarrow> \<not> js_lt (S k) (Fin (1 / 100))"
        "n < 50 \<and> a + int n < int (length rates) \<longrightarrow> 1 \<le> n \<and> js_lt (S n) (Fin (1 / 100))"
        "j = int n \<or> j + 1 = int n"
        using Suc.hyps(1) [of "Suc i"] by blast
      then show ?thesis
        unfolding step
        by (intro exI [of _ n] exI [of _ j]) auto
    qed
  qed
qed

lemma calculateSurvivalProbability_eq:
  "calculateSurvivalProbability a g tb y = Inr (survival_loop (curve_of tb g) a y 0 (Fin 1))"
  by (simp add: calculateSurvivalProbability_def resolveCurve_Inr)

lemma calculateSurvivalProbability_js:
  "calculateSurvivalProbability a g tb (int k) = Inr (survival_js (curve_of tb g) a k)"
  by (simp add: calculateSurvivalProbability_eq survival_js_def)

lemma lifeExpectancy_state_char:
  fixes a :: int and g tb :: string
  defines "S \<equiv> survival_js (curve_of tb g) a"
  shows "\<exists>n j. lifeExpectancy_state a g tb = Inr (j, js_sum S n, S n)
           \<and> n \<le> 50 \<and> int n \<le> max 0 (100 - a)
           \<and> (\<forall>k. 1 \<le> k \<and> k < n \<longrightarrow> \<not> js_lt (S k) (Fin (1 / 100)))
           \<and> (n < 50 \<and> a + int n < 100 \<longrightarrow> 1 \<le> n \<and> js_lt (S n) (Fin (1 / 100)))
           \<and> (j = int n \<or> j + 1 = int n)"
  using lifeExpectancy_loop_char [of 0 a "curve_of tb g"]
  by (simp add: lifeExpectancy_state_def resolveCurve_Inr S_def survival_js_0 length_curve_of)

lemma ramp_nth: "k < 100 \<Longrightarrow> ramp b s c ! k = min (b + real k * s) c"
  by (simp add: ramp_def)

lemma resolve_TGH05_male: "resolveCurve ''TGH05'' ''male'' = Inr (ramp (1 / 1000) (2 / 1000) (3 / 10))"
  by (simp add: resolveCurve_def lookupCurve_def mortalityRates_def)

lemma curve_of_TGH05_male: "curve_of ''TGH05'' ''male'' = ramp (1 / 1000) (2 / 1000) (3 / 10)"
  by (simp add: curve_of_def resolve_TGH05_male)

lemma lifeExpectancy_state_99: "lifeExpectancy_state 99 ''male'' ''TGH05'' = Inr (1, Fin (801 / 1000), Fin (801 / 1000))"
  by (simp add: lifeExpectancy_state_def resolve_TGH05_male lifeExpectancy_loop.simps Let_def
        length_ramp rate_at_def ramp_nth js_sub_def)

lemma lifeExpectancy_99: "calculateLifeExpectancy 99 ''male'' ''TGH05'' = Inr (Fin (8 / 10))"
  by (simp add: calculateLifeExpectancy_def lifeExpectancy_state_99)

section \<open>The projection loop\<close>

lemma proj_count_Fin: "proj_count (Fin x) = nat (min 30 \<lceil>x\<rceil>)"
proof -
  have "\<lfloor>min (30::real) (of_int \<lceil>x\<rceil>)\<rfloor> = min 30 \<lceil>x\<rceil>"
    by (simp add: min_def)
  then show ?thesis by (simp add: proj_count_def)
qed

lemma projection_guard:
  "1 \<le> y \<Longrightarrow> js_le (Fin (of_int y)) (js_min (Fin 30) (js_ceil le)) \<longleftrightarrow> y \<le> int (proj_count le)"
proof (cases le)
  case (Fin x)
  assume "1 \<le> y"
  have "real_of_int y \<le> min 30 (of_int \<lceil>x\<rceil>) \<longleftrightarrow> y \<le> min 30 \<lceil>x\<rceil>"
    by (simp add: min_def)
  with \<open>1 \<le> y\<close> Fin show ?thesis
    by (simp add: proj_count_Fin) linarith
qed (simp_all add: proj_count_def)

lemma projection_loop_closed:
  "1 \<le> k \<Longrightarrow> k \<le> Suc (proj_count le) \<Longrightarrow>
   projection_loop params le (int k) (proj_total params (k - 1)) projs
     = Inr (proj_total params (proj_count le),
            projs @ map (proj_point params) [k..<Suc (proj_count le)])"
proof (induction "Suc (proj_count le) - k" arbitrary: k projs)
  case 0
  then have k: "k = Suc (proj_count le)" by simp
  then have "\<not> js_le (Fin (of_int (int k))) (js_min (Fin 30) (js_ceil le))"
    using projection_guard [of "int k" le] by simp
  then show ?case
    using k by (subst projection_loop.simps) simp
next
  case (Suc m)
  then have k: "k \<le> proj_count le" "1 \<le> k" by simp_all
  then have guard: "js_le (Fin (of_int (int k))) (js_min (Fin 30) (js_ceil le))"
    using projection_guard [of "int k" le] by simp
  have tot: "js_add (proj_total params (k - Suc 0)) (js_mul (payment_of params (int k)) (surv_of params k))
             = proj_total params k"
    using k by (cases k) simp_all
  have "projection_loop params le (int k) (proj_total params (k - 1)) projs
        = projection_loop params le (int (Suc k)) (proj_total params (Suc k - 1))
            (projs @ [proj_point params k])"
    using guard
    by (subst projection_loop.simps)
       (simp add: calculateSurvivalProbability_js Let_def tot proj_point_def
          surv_of_def [symmetric] add.commute)
  also have "\<dots> = Inr (proj_total params (proj_count le),
       (projs @ [proj_point params k]) @ map (proj_point params) [Suc k..<Suc (proj_count le)])"
    using Suc.hyps(2) k by (intro Suc.hyps(1)) simp_all
  also have "(projs @ [proj_point params k]) @ map (proj_point params) [Suc k..<Suc (proj_count le)]
        = projs @ map (proj_point params) [k..<Suc (proj_count le)]"
  proof -
    have "k < Suc (proj_count le)" using k by simp
    then have "[k..<Suc (proj_count le)] = k # [Suc k..<Suc (proj_count le)]"
      by (rule upt_conv_Cons)
    then show ?thesis by simp
  qed
  finally show ?case .
qed

section \<open>The fallible computations return a value\<close>

lemma simple_loop_Inr: "\<exists>v. simple_loop a g tb amount discountRate t pv = Inr v"
proof (induction a g tb amount discountRate t pv rule: simple_loop.induct)
  case (1 a g tb amount discountRate t pv)
  show ?case
    using 1 [OF _ calculateSurvivalProbability_eq refl refl]
    by (subst simple_loop.simps) (simp add: calculateSurvivalProbability_eq Let_def)
qed

lemma temporary_loop_Inr: "\<exists>v. temporary_loop a g tb amount discountRate dur t pv = Inr v"
proof (induction a g tb amount discountRate dur t pv rule: temporary_loop.induct)
  case (1 a g tb amount discountRate dur t pv)
  show ?case
    using 1 [OF _ calculateSurvivalProbability_eq refl refl]
    by (subst temporary_loop.simps) (simp add: calculateSurvivalProbability_eq Let_def)
qed

lemma growing_loop_Inr: "\<exists>v. growing_loop a g tb amount rdr growth t pv = Inr v"
proof (induction a g tb amount rdr growth t pv rule: growing_loop.induct)
  case (1 a g tb amount rdr growth t pv)
  show ?case
    using 1 [OF _ calculateSurvivalProbability_eq refl refl refl]
    by (subst growing_loop.simps) (simp add: calculateSurvivalProbability_eq Let_def)
qed

lemma calculateSimpleAnnuity_Inr: "\<exists>v. calculateSimpleAnnuity a g tb amount discountRate = Inr v"
  by (simp add: calculateSimpleAnnuity_def simple_loop_Inr)

lemma calculateReversibleAnnuity_Inr:
  "\<exists>v. calculateReversibleAnnuity a g spouse tb amount discountRate reversal = Inr v"
proof -
  obtain v1 where "calculateSimpleAnnuity a g tb amount discountRate = Inr v1"
    using calculateSimpleAnnuity_Inr by blast
  moreover obtain v2 where
    "calculateSimpleAnnuity spouse (if g = ''male'' then ''female'' else ''male'') tb
       (amount * (reversal / 100)) discountRate = Inr v2"
    using calculateSimpleAnnuity_Inr by blast
  ultimately show ?thesis
    by (simp add: calculateReversibleAnnuity_def Let_def)
qed

lemma presentValue_of_Inr: "presentValue_of params = Inr (pv_value params)"
proof -
  have "\<exists>v. presentValue_of params = Inr v"
    unfolding presentValue_of_def Let_def calculateTemporaryAnnuity_def
      calculateDeferredAnnuity_def calculateGrowingAnnuity_def
    using calculateSimpleAnnuity_Inr calculateReversibleAnnuity_Inr temporary_loop_Inr
      simple_loop_Inr growing_loop_Inr
    by simp
  then show ?thesis by (auto simp: pv_value_def)
qed

lemma calculateLifeExpectancy_Inr:
  "calculateLifeExpectancy (age params) (gender params) (mortalityTable params)
     = Inr (le_value params)"
proof -
  obtain n j where "lifeExpectancy_state (age params) (gender params) (mortalityTable params)
      = Inr (j, js_sum (survival_js (curve_of (mortalityTable params) (gender params)) (age params)) n,
             survival_js (curve_of (mortalityTable params) (gender params)) (age params) n)"
    using lifeExpectancy_state_char [of "age params" "gender params" "mortalityTable params"]
    by blast
  then show ?thesis
    by (simp add: le_value_def calculateLifeExpectancy_def)
qed

lemma calculateAnnuity_closed:
  "calculateAnnuity params =
     Inr \<lparr>presentValue = js_round (pv_value params),
          monthlyPayment = js_round (Fin (annualAmount params / 12)),
          totalPayments = js_round (proj_total params (proj_count (le_value params))),
          lifeExpectancy = le_value params,
          projections = map (proj_point params) [1..<Suc (proj_count (le_value params))]\<rparr>"
  using projection_loop_closed [of 1 "le_value params" params "[]"]
  by (simp add: calculateAnnuity_def calculateLifeExpectancy_Inr presentValue_of_Inr)

section \<open>Horizon and truncation of the accumulating loops\<close>

lemma calculateLifeExpectancy_char:
  "\<exists>n. stops_at (survival_js (curve_of tb g) a) (min 50 (nat (100 - a))) n
     \<and> calculateLifeExpectancy a g tb =
         Inr (js_div (js_round (js_mul (js_sum (survival_js (curve_of tb g) a) n) (Fin 10))) (Fin 10))"
proof -
  let ?S = "survival_js (curve_of tb g) a"
  obtain n j where st: "lifeExpectancy_state a g tb = Inr (j, js_sum ?S n, ?S n)"
    and n: "n \<le> 50" "int n \<le> max 0 (100 - a)"
    and before: "\<forall>k. 1 \<le> k \<and> k < n \<longrightarrow> \<not> js_lt (?S k) (Fin (1 / 100))"
    and at: "n < 50 \<and> a + int n < 100 \<longrightarrow> 1 \<le> n \<and> js_lt (?S n) (Fin (1 / 100))"
    using lifeExpectancy_state_char [of a g tb] by blast
  have "n \<le> min 50 (nat (100 - a))"
    using n by auto
  moreover have "n < min 50 (nat (100 - a)) \<Longrightarrow> n < 50 \<and> a + int n < 100"
    by auto
  ultimately have "stops_at ?S (min 50 (nat (100 - a))) n"
    using before at unfolding stops_at_def by auto
  then show ?thesis
    using st by (auto simp: calculateLifeExpectancy_def)
qed

lemma simple_loop_step:
  assumes "i < 50"
  shows "simple_loop a g tb amount discountRate (int (Suc i)) pv =
     (if js_lt (survival_js (curve_of tb g) a (Suc i)) (Fin (1 / 100))
      then Inr (js_add pv (simple_term a g tb amount discountRate (Suc i)))
      else simple_loop a g tb amount discountRate (int (Suc i) + 1)
             (js_add pv (simple_term a g tb amount discountRate (Suc i))))"
proof -
  have c: "int (Suc i) \<le> 50" using assms by simp
  show ?thesis
    by (subst simple_loop.simps)
       (simp only: c if_True calculateSurvivalProbability_js sum.case Let_def simple_term_def)
qed

lemma simple_loop_char:
  fixes a :: int and g tb :: string and amount discountRate :: real
  defines "S \<equiv> survival_js (curve_of tb g) a"
    and "term \<equiv> simple_term a g tb amount discountRate"
  assumes "i \<le> 50" and "\<forall>k. 1 \<le> k \<and> k \<le> i \<longrightarrow> \<not> js_lt (S k) (Fin (1 / 100))"
  shows "\<exists>n. simple_loop a g tb amount discountRate (int (Suc i)) (js_sum term i) = Inr (js_sum term n)
           \<and> i \<le> n \<and> n \<le> 50
           \<and> (\<forall>k. 1 \<le> k \<and> k < n \<longrightarrow> \<not> js_lt (S k) (Fin (1 / 100)))
           \<and> (n < 50 \<longrightarrow> 1 \<le> n \<and> js_lt (S n) (Fin (1 / 100)))"
  using assms(3-)
proof (induction "50 - i" arbitrary: i)
  case 0
  then have i: "i = 50" by simp
  have "simple_loop a g tb amount discountRate (int (Suc i)) (js_sum term i) = Inr (js_sum term i)"
    using i by (subst simple_loop.simps) simp
  then show ?case
    using 0 i by (intro exI [of _ i]) auto
next
  case (Suc m)
  then have i: "i < 50" by simp
  note step = simple_loop_step [OF i, of a g tb amount discountRate "js_sum term i",
      folded S_def term_def]
  show ?case
  proof (cases "js_lt (S (Suc i)) (Fin (1 / 100))")
    case True
    have "simple_loop a g tb amount discountRate (int (Suc i)) (js_sum term i)
            = Inr (js_sum term (Suc i))"
      using True by (simp only: step if_True js_sum.simps)
    then show ?thesis
      using Suc.prems True i by (intro exI [of _ "Suc i"]) (auto simp: less_Suc_eq_le)
  next
    case False
    have "int (Suc i) + 1 = int (Suc (Suc i))" by simp
    then have step': "simple_loop a g tb amount discountRate (int (Suc i)) (js_sum term i)
            = simple_loop a g tb amount discountRate (int (Suc (Suc i))) (js_sum term (Suc i))"
      using False by (simp only: step if_False js_sum.simps)
    have "m = 50 - Suc i" using Suc.hyps(2) by simp
    moreover have "Suc i \<le> 50" using i by simp
    moreover have "\<forall>k. 1 \<le> k \<and> k \<le> Suc i \<longrightarrow> \<not> js_lt (S k) (Fin (1 / 100))"
      using Suc.prems(2) False by (auto simp: le_Suc_eq)
    ultimately obtain n where
      "simple_loop a g tb amount discountRate (int (Suc (Suc i))) (js_sum term (Suc i))
         = Inr (js_sum term n)"
      "Suc i \<le> n" "n \<le> 50"
      "\<forall>k. 1 \<le> k \<and> k < n \<longrightarrow> \<not> js_lt (S k) (Fin (1 / 100))"
      "n < 50 \<longrightarrow> 1 \<le> n \<and> js_lt (S n) (Fin (1 / 100))"
      using Suc.hyps(1) [of "Suc i"] by blast
    then show ?thesis
      unfolding step' by (intro exI [of _ n]) auto
  qed
qed

lemma calculateSimpleAnnuity_char:
  "\<exists>n. stops_at (survival_js (curve_of tb g) a) 50 n \<and> 1 \<le> n
     \<and> calculateSimpleAnnuity a g tb amount discountRate
         = Inr (js_sum (simple_term a g tb amount discountRate) n)"
proof -
  obtain n where "simple_loop a g tb amount discountRate (int (Suc 0))
        (js_sum (simple_term a g tb amount discountRate) 0)
      = Inr (js_sum (simple_term a g tb amount discountRate) n)"
    and "n \<le> 50"
    and "\<forall>k. 1 \<le> k \<and> k < n \<longrightarrow> \<not> js_lt (survival_js (curve_of tb g) a k) (Fin (1 / 100))"
    and "n < 50 \<longrightarrow> 1 \<le> n \<and> js_lt (survival_js (curve_of tb g) a n) (Fin (1 / 100))"
    using simple_loop_char [of 0 tb g a amount discountRate] by auto
  then show ?thesis
    by (intro exI [of _ n]) (auto simp: stops_at_def calculateSimpleAnnuity_def)
qed

section \<open>The fields of the result\<close>

lemma js_add_NaN [simp]: "js_add x NaN = NaN"
  by (cases x) simp_all

lemma js_mul_NaN [simp]: "js_mul x NaN = NaN"
  by (cases x) simp_all

lemma calculateAnnuity_fields:
  assumes "calculateAnnuity params = Inr r"
  shows "presentValue r = js_round (pv_value params)"
    and "monthlyPayment r = js_round (Fin (annualAmount params / 12))"
    and "totalPayments r = js_round (proj_total params (proj_count (le_value params)))"
    and "lifeExpectancy r = le_value params"
    and "projections r = map (proj_point params) [1..<Suc (proj_count (le_value params))]"
  using assms unfolding calculateAnnuity_closed by (auto simp del: upt_Suc)

lemma projections_count:
  assumes "calculateAnnuity params = Inr r"
  shows "length (projections r) = proj_count (le_value params)"
  unfolding calculateAnnuity_fields(5) [OF assms] by (simp del: upt_Suc)

lemma js_sum_Fin: "(\<And>k. f k = Fin (h k)) \<Longrightarrow> js_sum f n = Fin (\<Sum>k = 1..n. h k)"
  by (induction n) simp_all

lemma le_value_Fin:
  assumes "0 \<le> age params"
  shows "\<exists>x. le_value params = Fin x \<and> 0 \<le> x"
proof -
  let ?rates = "curve_of (mortalityTable params) (gender params)"
  let ?s = "survival_real ?rates (nat (age params))"
  obtain n where le: "calculateLifeExpectancy (age params) (gender params) (mortalityTable params) =
      Inr (js_div (js_round (js_mul (js_sum (survival_js ?rates (age params)) n) (Fin 10))) (Fin 10))"
    using calculateLifeExpectancy_char [of "mortalityTable params" "gender params" "age params"]
    by blast
  have sum: "js_sum (survival_js ?rates (age params)) n = Fin (\<Sum>k = 1..n. ?s k)"
    using assms by (intro js_sum_Fin) (simp add: survival_js_Fin)
  have "0 \<le> (\<Sum>k = 1..n. ?s k)"
    using survival_real_bounds [of ?rates] curve_of_bounds
    by (intro sum_nonneg) blast
  then have "0 \<le> real_of_int \<lfloor>(\<Sum>k = 1..n. ?s k) * 10 + 1 / 2\<rfloor> / 10"
    by simp
  moreover have "le_value params = Fin (real_of_int \<lfloor>(\<Sum>k = 1..n. ?s k) * 10 + 1 / 2\<rfloor> / 10)"
    by (simp add: le_value_def le sum)
  ultimately show ?thesis
    by blast
qed

lemma le_value_NaN:
  assumes "age params < 0"
  shows "le_value params = NaN"
proof -
  let ?rates = "curve_of (mortalityTable params) (gender params)"
  let ?S = "survival_js ?rates (age params)"
  obtain n where st: "stops_at ?S (min 50 (nat (100 - age params))) n"
    and le: "calculateLifeExpectancy (age params) (gender params) (mortalityTable params) =
      Inr (js_div (js_round (js_mul (js_sum ?S n) (Fin 10))) (Fin 10))"
    using calculateLifeExpectancy_char [of "mortalityTable params" "gender params" "age params"]
    by blast
  have "1 \<le> n"
    using st assms by (auto simp: stops_at_def)
  then obtain m where "n = Suc m" by (cases n) auto
  then have "js_sum ?S n = NaN"
    using assms by (simp add: survival_js_NaN)
  then show ?thesis
    by (simp add: le_value_def le)
qed

lemma le_value_annuityType [simp]: "le_value (params\<lparr>annuityType := ty\<rparr>) = le_value params"
  by (simp add: le_value_def)

lemma lifeExpectancy_65: "calculateLifeExpectancy 65 ''male'' ''TGH05'' = Inr (Fin 6)"
  by (simp add: calculateLifeExpectancy_def lifeExpectancy_state_def resolve_TGH05_male
        lifeExpectancy_loop.simps Let_def length_ramp rate_at_def ramp_nth js_sub_def)

lemma le_value_scenario_A: "le_value scenario_A = Fin 6"
  by (simp add: le_value_def scenario_A_def lifeExpectancy_65)

lemma calculateAnnuity_negative_age:
  assumes "age params < 0"
  shows "calculateAnnuity params =
     Inr \<lparr>presentValue = js_round (pv_value params),
          monthlyPayment = js_round (Fin (annualAmount params / 12)),
          totalPayments = Fin 0,
          lifeExpectancy = NaN,
          projections = []\<rparr>"
  using le_value_NaN [OF assms] by (simp add: calculateAnnuity_closed proj_count_def del: upt_Suc)

lemma js_pow_nat: "js_pow (Fin b) (int i) = Fin (b ^ i)"
  by auto

lemma payment_of_growing:
  assumes "annuityType params = ''growing''"
  shows "payment_of params (int (Suc i)) =
     Fin (annualAmount params * (1 + growthRate_of params / 100) ^ i)"
proof -
  have "int (Suc i) - 1 = int i" by simp
  then show ?thesis
    unfolding payment_of_def Let_def js_pow_nat using assms by simp
qed

lemma projections_nth:
  assumes "calculateAnnuity params = Inr r" and "i < length (projections r)"
  shows "projections r ! i = proj_point params (Suc i)"
proof -
  have "i < proj_count (le_value params)"
    using assms projections_count by simp
  then have "[1..<Suc (proj_count (le_value params))] ! i = Suc i"
    by (simp del: upt_Suc)
  then show ?thesis
    using assms \<open>i < proj_count (le_value params)\<close>
    by (simp add: calculateAnnuity_fields(5) [OF assms(1)] del: upt_Suc)
qed

lemma le_value_scenarios:
  "le_value scenario_B = Fin 6" "le_value scenario_D = Fin 6"
  "le_value scenario_growing = Fin 6" "le_value scenario_shrinking = Fin 6"
  using le_value_scenario_A by (simp_all add: scenario_defs le_value_def)

lemma payment_of_Fin:
  "\<exists>x. payment_of params (int (Suc k)) = Fin x
     \<and> (0 \<le> annualAmount params
          \<and> (annuityType params = ''growing'' \<longrightarrow> - 100 \<le> growthRate_of params)
        \<longrightarrow> 0 \<le> x)"
proof -
  have e: "int (Suc k) - 1 = int k" by simp
  show ?thesis
    unfolding payment_of_def Let_def e js_pow_nat by auto
qed

lemma surv_of_Fin:
  assumes "0 \<le> age params"
  shows "\<exists>s. surv_of params k = Fin s \<and> 0 \<le> s"
  using assms survival_real_bounds [of "curve_of (mortalityTable params) (gender params)"]
    curve_of_bounds
  by (simp add: surv_of_def survival_js_Fin)

lemma proj_total_Fin:
  assumes "0 \<le> age params"
  shows "\<exists>t. proj_total params k = Fin t"
proof (induction k)
  case 0
  show ?case by simp
next
  case (Suc k)
  obtain t where "proj_total params k = Fin t" using Suc by blast
  moreover obtain x where "payment_of params (int (Suc k)) = Fin x"
    using payment_of_Fin by blast
  moreover obtain s where "surv_of params (Suc k) = Fin s"
    using surv_of_Fin [OF assms] by blast
  ultimately show ?case by (simp del: of_nat_Suc)
qed

lemma proj_total_step:
  assumes "0 \<le> age params" and "0 \<le> annualAmount params"
    and "annuityType params = ''growing'' \<longrightarrow> - 100 \<le> growthRate_of params"
  shows "\<exists>t t'. proj_total params k = Fin t \<and> proj_total params (Suc k) = Fin t' \<and> t \<le> t'"
proof -
  obtain t where "proj_total params k = Fin t"
    using proj_total_Fin [OF assms(1)] by blast
  moreover obtain x where "payment_of params (int (Suc k)) = Fin x" "0 \<le> x"
    using payment_of_Fin [of params k] assms by blast
  moreover obtain s where "surv_of params (Suc k) = Fin s" "0 \<le> s"
    using surv_of_Fin [OF assms(1)] by blast
  ultimately show ?thesis by (simp del: of_nat_Suc)
qed

lemma proj_total_mono:
  assumes "0 \<le> age params" and "0 \<le> annualAmount params"
    and "annuityType params = ''growing'' \<longrightarrow> - 100 \<le> growthRate_of params"
    and "i \<le> j"
  shows "\<exists>t t'. proj_total params i = Fin t \<and> proj_total params j = Fin t' \<and> t \<le> t'"
  using assms(4)
proof (induction j rule: dec_induct)
  case base
  show ?case using proj_total_Fin [OF assms(1), of i] by auto
next
  case (step j)
  obtain t t' where 1: "proj_total params i = Fin t" "proj_total params j = Fin t'" "t \<le> t'"
    using step.IH by blast
  obtain u u' where 2: "proj_total params j = Fin u" "proj_total params (Suc j) = Fin u'" "u \<le> u'"
    using proj_total_step [OF assms(1-3)] by blast
  from 1 2 have "t \<le> u'" by simp
  with 1 2 show ?case by blast
qed

lemma js_round_mono: "t \<le> t' \<Longrightarrow> js_le (js_round (Fin t)) (js_round (Fin t'))"
  by (simp add: floor_mono)

lemma survival_65:
  "survival_js (curve_of ''TGH05'' ''male'') 65 (Suc 0) = Fin (869 / 1000)"
  "survival_js (curve_of ''TGH05'' ''male'') 65 (Suc (Suc 0)) = Fin (753423 / 1000000)"
  by (simp_all add: curve_of_TGH05_male survival_js_Suc survival_js_0 length_ramp factor_js_def rate_at_def
        ramp_nth js_sub_def)

lemma proj_total_scenario_A:
  "proj_total scenario_A (Suc 0) = Fin 10428"
  "proj_total scenario_A (Suc (Suc 0)) = Fin (19469076 / 1000)"
  by (simp_all add: surv_of_def payment_of_def scenario_defs survival_65)

lemma proj_total_scenario_shrinking:
  "proj_total scenario_shrinking (Suc 0) = Fin 10428"
  "proj_total scenario_shrinking (Suc (Suc 0)) = Fin (1386924 / 1000)"
  by (simp_all add: surv_of_def payment_of_def scenario_defs survival_65
        growthRate_of_def)

section \<open>Evaluating the simple annuity in one pass\<close>

lemma simple_loop_pass:
  "1 \<le> k \<Longrightarrow>
   simple_loop a g tb amount r (int k) pv =
     Inr (simple_pass (curve_of tb g) a amount r k (survival_js (curve_of tb g) a k) pv)"
proof (induction "51 - k" arbitrary: k pv)
  case 0
  then have "\<not> int k \<le> 50" "\<not> k \<le> 50" by simp_all
  then show ?case
    by (subst simple_loop.simps, subst simple_pass.simps) simp
next
  case (Suc m)
  then obtain i where k: "k = Suc i" and i: "i < 50"
    by (cases k) auto
  have next_p: "survival_js (curve_of tb g) a (Suc (Suc i)) =
      (if a + int (Suc i) < int (length (curve_of tb g))
       then js_mul (survival_js (curve_of tb g) a (Suc i)) (factor_js (curve_of tb g) (a + int (Suc i)))
       else survival_js (curve_of tb g) a (Suc i))"
    by (rule survival_js_Suc)
  have IH: "simple_loop a g tb amount r (int (Suc (Suc i))) pv' =
      Inr (simple_pass (curve_of tb g) a amount r (Suc (Suc i))
             (survival_js (curve_of tb g) a (Suc (Suc i))) pv')" for pv'
    using Suc.hyps(2) k by (intro Suc.hyps(1)) simp_all
  have e: "int (Suc i) + 1 = int (Suc (Suc i))" "Suc i + 1 = Suc (Suc i)" by simp_all
  have le: "Suc i \<le> 50" using i by simp
  show ?case
    unfolding k
    by (subst simple_loop_step [OF i], subst simple_pass.simps)
       (simp only: le if_True e IH simple_term_def next_p [symmetric] if_distrib [of Inr] cong: if_cong)
qed

lemma calculateSimpleAnnuity_pass:
  "calculateSimpleAnnuity a g tb amount r =
     Inr (simple_pass (curve_of tb g) a amount r 1 (survival_js (curve_of tb g) a 1) (Fin 0))"
  using simple_loop_pass [of 1 a g tb amount r "Fin 0"]
  by (simp add: calculateSimpleAnnuity_def)

section \<open>Finite results inside the table\<close>

lemma calculateSurvivalProbability_Fin:
  assumes "0 \<le> a"
  shows "\<exists>s. calculateSurvivalProbability a g tb y = Inr (Fin s) \<and> 0 \<le> s \<and> s \<le> 1"
proof (cases "0 \<le> y")
  case True
  then obtain k where "y = int k" using nonneg_int_cases by blast
  then show ?thesis
    using calculateSurvivalProbability_js [of a g tb k] assms
      survival_real_bounds [of "curve_of tb g" "nat a" k] curve_of_bounds [of _ tb g]
    by (simp add: survival_js_Fin)
next
  case False
  then show ?thesis
    by (simp add: calculateSurvivalProbability_eq survival_loop_no_years)
qed

lemma js_pow_Fin: "b \<noteq> 0 \<Longrightarrow> \<exists>v. js_pow (Fin b) n = Fin v"
  by simp

lemma simple_loop_Fin:
  assumes "0 \<le> a" and "1 + r \<noteq> 0"
  shows "\<exists>v. simple_loop a g tb amount r t (Fin pv) = Inr (Fin v)"
proof (induction "nat (51 - t)" arbitrary: t pv)
  case 0
  then have "\<not> t \<le> 50" by simp
  then show ?case by (subst simple_loop.simps) simp
next
  case (Suc m)
  then have t: "t \<le> 50" by simp
  obtain s where s: "calculateSurvivalProbability a g tb t = Inr (Fin s)"
    using calculateSurvivalProbability_Fin [OF assms(1)] by blast
  obtain d where d: "js_pow (Fin (1 + r)) (- t) = Fin d"
    using js_pow_Fin [OF assms(2)] by blast
  have "m = nat (51 - (t + 1))" using Suc.hyps(2) by simp
  then obtain v where "simple_loop a g tb amount r (t + 1) (Fin (pv + amount * s * d)) = Inr (Fin v)"
    using Suc.hyps(1) by blast
  then show ?case
    using t by (subst simple_loop.simps) (simp add: s d Let_def del: js_pow.simps)
qed

lemma temporary_loop_Fin:
  assumes "0 \<le> a" and "1 + r \<noteq> 0"
  shows "\<exists>v. temporary_loop a g tb amount r dur t (Fin pv) = Inr (Fin v)"
proof (induction "nat (dur + 1 - t)" arbitrary: t pv)
  case 0
  then have "\<not> t \<le> dur" by simp
  then show ?case by (subst temporary_loop.simps) simp
next
  case (Suc m)
  then have t: "t \<le> dur" by simp
  obtain s where s: "calculateSurvivalProbability a g tb t = Inr (Fin s)"
    using calculateSurvivalProbability_Fin [OF assms(1)] by blast
  obtain d where d: "js_pow (Fin (1 + r)) (- t) = Fin d"
    using js_pow_Fin [OF assms(2)] by blast
  have "m = nat (dur + 1 - (t + 1))" using Suc.hyps(2) by simp
  then obtain v where
    "temporary_loop a g tb amount r dur (t + 1) (Fin (pv + amount * s * d)) = Inr (Fin v)"
    using Suc.hyps(1) by blast
  then show ?case
    using t by (subst temporary_loop.simps) (simp add: s d Let_def del: js_pow.simps)
qed

lemma growing_loop_Fin:
  assumes "0 \<le> a" and "1 + rho \<noteq> 0" and "1 + growth / 100 \<noteq> 0"
  shows "\<exists>v. growing_loop a g tb amount (Fin rho) growth t (Fin pv) = Inr (Fin v)"
proof (induction "nat (51 - t)" arbitrary: t pv)
  case 0
  then have "\<not> t \<le> 50" by simp
  then show ?case by (subst growing_loop.simps) simp
next
  case (Suc m)
  then have t: "t \<le> 50" by simp
  obtain s where s: "calculateSurvivalProbability a g tb t = Inr (Fin s)"
    using calculateSurvivalProbability_Fin [OF assms(1)] by blast
  obtain d where d: "js_pow (Fin (1 + rho)) (- t) = Fin d"
    using js_pow_Fin [OF assms(2)] by blast
  obtain e where e: "js_pow (Fin (1 + growth / 100)) (t - 1) = Fin e"
    using js_pow_Fin [OF assms(3)] by blast
  have "m = nat (51 - (t + 1))" using Suc.hyps(2) by simp
  then obtain v where
    "growing_loop a g tb amount (Fin rho) growth (t + 1) (Fin (pv + amount * e * s * d)) = Inr (Fin v)"
    using Suc.hyps(1) by blast
  then show ?case
    using t by (subst growing_loop.simps) (simp add: s d e Let_def del: js_pow.simps)
qed

lemma pv_value_Fin:
  assumes "0 \<le> age params" and "0 \<le> spouseAge_of params"
    and "interestRate params \<noteq> - 100" and "growthRate_of params \<noteq> - 100"
  shows "\<exists>v. pv_value params = Fin v"
proof -
  let ?r = "interestRate params / 100"
  let ?g = "growthRate_of params / 100"
  have r: "1 + ?r \<noteq> 0" using assms(3) by auto
  have g: "1 + ?g \<noteq> 0" using assms(4) by auto
  have simple: "\<exists>v. calculateSimpleAnnuity a g tb amount ?r = Inr (Fin v)"
    if "0 \<le> a" for a g tb amount
    using simple_loop_Fin [OF that r] by (simp add: calculateSimpleAnnuity_def)
  have deferred: "\<exists>v. calculateDeferredAnnuity (age params) g tb amount ?r d = Inr (Fin v)"
    for g tb amount d
    using simple_loop_Fin [OF assms(1) r] by (simp add: calculateDeferredAnnuity_def)
  have temporary: "\<exists>v. calculateTemporaryAnnuity (age params) g tb amount ?r d = Inr (Fin v)"
    for g tb amount d
    using temporary_loop_Fin [OF assms(1) r] by (simp add: calculateTemporaryAnnuity_def)
  have "1 + (?r - ?g) / (1 + ?g) = (1 + ?r) / (1 + ?g)"
    using g by (simp add: field_simps)
  then have rho: "1 + (?r - ?g) / (1 + ?g) \<noteq> 0"
    using r g by simp
  have growing: "\<exists>v. calculateGrowingAnnuity (age params) g tb amount ?r (growthRate_of params)
      = Inr (Fin v)" for g tb amount
    using growing_loop_Fin [OF assms(1) rho g] g
    by (simp add: calculateGrowingAnnuity_def)
  have reversible: "\<exists>v. calculateReversibleAnnuity (age params) g (spouseAge_of params) tb amount
      ?r rev = Inr (Fin v)" for g tb amount rev
  proof -
    obtain v1 where "calculateSimpleAnnuity (age params) g tb amount ?r = Inr (Fin v1)"
      using simple [OF assms(1)] by blast
    moreover obtain v2 where "calculateSimpleAnnuity (spouseAge_of params)
        (if g = ''male'' then ''female'' else ''male'') tb (amount * (rev / 100)) ?r = Inr (Fin v2)"
      using simple [OF assms(2)] by blast
    ultimately show ?thesis
      by (simp add: calculateReversibleAnnuity_def Let_def)
  qed
  have "\<exists>v. presentValue_of params = Inr (Fin v)"
    unfolding presentValue_of_def Let_def
    using simple [OF assms(1)] deferred temporary growing reversible by simp
  then show ?thesis
    by (auto simp: pv_value_def)
qed

lemma le_value_bounds:
  assumes "0 \<le> age params"
  shows "\<exists>x. le_value params = Fin x \<and> 0 \<le> x \<and> x \<le> 50"
proof -
  let ?rates = "curve_of (mortalityTable params) (gender params)"
  let ?s = "survival_real ?rates (nat (age params))"
  obtain n where st: "stops_at (survival_js ?rates (age params)) (min 50 (nat (100 - age params))) n"
    and le: "calculateLifeExpectancy (age params) (gender params) (mortalityTable params) =
      Inr (js_div (js_round (js_mul (js_sum (survival_js ?rates (age params)) n) (Fin 10))) (Fin 10))"
    using calculateLifeExpectancy_char [of "mortalityTable params" "gender params" "age params"]
    by blast
  have n: "n \<le> 50" using st by (simp add: stops_at_def)
  have sum: "js_sum (survival_js ?rates (age params)) n = Fin (\<Sum>k = 1..n. ?s k)"
    using assms by (intro js_sum_Fin) (simp add: survival_js_Fin)
  have b: "0 \<le> ?s k \<and> ?s k \<le> 1" for k
    using survival_real_bounds [of ?rates] curve_of_bounds by blast
  have "0 \<le> (\<Sum>k = 1..n. ?s k)"
    using b by (intro sum_nonneg) blast
  moreover have "(\<Sum>k = 1..n. ?s k) \<le> (\<Sum>k = 1..n. 1)"
    using b by (intro sum_mono) blast
  then have "(\<Sum>k = 1..n. ?s k) \<le> 50"
    using n by simp
  ultimately have "0 \<le> \<lfloor>(\<Sum>k = 1..n. ?s k) * 10 + 1 / 2\<rfloor>"
    and "\<lfloor>(\<Sum>k = 1..n. ?s k) * 10 + 1 / 2\<rfloor> \<le> 500"
    by (simp_all add: floor_le_iff le_floor_iff)
  then have "0 \<le> real_of_int \<lfloor>(\<Sum>k = 1..n. ?s k) * 10 + 1 / 2\<rfloor> / 10"
    and "real_of_int \<lfloor>(\<Sum>k = 1..n. ?s k) * 10 + 1 / 2\<rfloor> / 10 \<le> 50"
    by simp_all
  moreover have "le_value params = Fin (real_of_int \<lfloor>(\<Sum>k = 1..n. ?s k) * 10 + 1 / 2\<rfloor> / 10)"
    by (simp add: le_value_def le sum)
  ultimately show ?thesis
    by blast
qed

lemma surv_of_bounds:
  assumes "0 \<le> age params"
  shows "\<exists>s. surv_of params k = Fin s \<and> 0 \<le> s \<and> s \<le> 1"
  using assms survival_real_bounds [of "curve_of (mortalityTable params) (gender params)"]
    curve_of_bounds
  by (simp add: surv_of_def survival_js_Fin)

lemma proj_point_Fin:
  assumes "0 \<le> age params"
  shows "year (proj_point params (Suc k)) = int k + 1
    \<and> (\<exists>y c q. payment (proj_point params (Suc k)) = Fin y
          \<and> cumulativePayment (proj_point params (Suc k)) = Fin c
          \<and> probability (proj_point params (Suc k)) = Fin q \<and> 0 \<le> q \<and> q \<le> 1)"
proof -
  obtain x where x: "payment_of params (int (Suc k)) = Fin x"
    using payment_of_Fin by blast
  obtain t where t: "proj_total params (Suc k) = Fin t"
    using proj_total_Fin [OF assms] by blast
  obtain s where s: "surv_of params (Suc k) = Fin s" "0 \<le> s" "s \<le> 1"
    using surv_of_bounds [OF assms] by blast
  have "0 \<le> \<lfloor>s * 100 + 1 / 2\<rfloor>" "\<lfloor>s * 100 + 1 / 2\<rfloor> \<le> 100"
    using s by (simp_all add: floor_le_iff le_floor_iff)
  then have "0 \<le> real_of_int \<lfloor>s * 100 + 1 / 2\<rfloor> / 100"
    "real_of_int \<lfloor>s * 100 + 1 / 2\<rfloor> / 100 \<le> 1"
    by simp_all
  moreover have "probability (proj_point params (Suc k))
      = Fin (real_of_int \<lfloor>s * 100 + 1 / 2\<rfloor> / 100)"
    by (simp add: proj_point_def s)
  moreover have "payment (proj_point params (Suc k)) = Fin (real_of_int \<lfloor>x + 1 / 2\<rfloor>)"
    "cumulativePayment (proj_point params (Suc k)) = Fin (real_of_int \<lfloor>t + 1 / 2\<rfloor>)"
    "year (proj_point params (Suc k)) = int k + 1"
    by (simp_all add: proj_point_def x t del: proj_total.simps of_nat_Suc)
  ultimately show ?thesis
    by blast
qed

lemma simple_term_NaN:
  "a < 0 \<Longrightarrow> simple_term a g tb amount r (Suc k) = NaN"
  by (simp add: simple_term_def survival_js_NaN del: js_pow.simps)

lemma calculateSimpleAnnuity_NaN:
  assumes "a < 0"
  shows "calculateSimpleAnnuity a g tb amount r = Inr NaN"
proof -
  obtain n where "1 \<le> n"
    and "calculateSimpleAnnuity a g tb amount r = Inr (js_sum (simple_term a g tb amount r) n)"
    using calculateSimpleAnnuity_char by blast
  moreover from \<open>1 \<le> n\<close> obtain m where "n = Suc m" by (cases n) auto
  ultimately show ?thesis
    using assms by (simp add: simple_term_NaN)
qed

section \<open>The engine at concrete records\<close>

text \<open>
  The reference keys are plain. The simple annuity of scenario A (age 65, male, TGH05,
  12000 a year at 2.5 percent) and that of a spouse of 60 (female, 9600 a year) are
  evaluated exactly, and so are the six projection points of scenario A.
\<close>

lemma plain_key_reference:
  "plain_key ''TGH05''" "plain_key ''TV88-90''" "plain_key ''male''" "plain_key ''female''"
  by (simp_all add: plain_key_def objectPrototypeKeys_def)

lemma curve_of_TGH05_female:
  "curve_of ''TGH05'' ''female'' = ramp (8 / 10000) (18 / 10000) (25 / 100)"
  by (simp add: curve_of_def resolveCurve_def lookupCurve_def mortalityRates_def)

lemma simple_65_male:
  "calculateSimpleAnnuity 65 ''male'' ''TGH05'' 12000 (1 / 40) =
     Inr (Fin (1507625951485278204408952749403598516323015889934581780572684784572291646482464
               / 24323746569986683863746296030455721135042523428637650795280933380126953125))"
  by (simp add: calculateSimpleAnnuity_pass curve_of_TGH05_male simple_pass.simps survival_js_Suc
        survival_js_0 length_ramp factor_js_def rate_at_def ramp_nth js_sub_def power_divide)

lemma simple_60_female:
  "calculateSimpleAnnuity 60 ''female'' ''TGH05'' 9600 (1 / 40) =
     Inr (Fin (61521483998562355600339660690608751815740848123454059868377108195833769242241056404129045956245844536598845858717696
               / 1050833195578006328421065945097408858839833776562168767622469972005815226634428682928046328015625476837158203125))"
  by (simp add: calculateSimpleAnnuity_pass curve_of_TGH05_female simple_pass.simps survival_js_Suc
        survival_js_0 length_ramp factor_js_def rate_at_def ramp_nth js_sub_def power_divide)

lemma pv_value_scenario_A: "js_round (pv_value scenario_A) = Fin 61982"
  by (simp add: pv_value_def presentValue_of_def scenario_defs simple_65_male)

lemma survival_65_more:
  "survival_js (curve_of ''TGH05'' ''male'') 65 (Suc (Suc (Suc 0))) = Fin (651710895 / 1000000000)"
  "survival_js (curve_of ''TGH05'' ''male'') 65 (Suc (Suc (Suc (Suc 0))))
     = Fin (562426502385 / 1000000000000)"
  "survival_js (curve_of ''TGH05'' ''male'') 65 (Suc (Suc (Suc (Suc (Suc 0)))))
     = Fin (484249218553485 / 1000000000000000)"
  "survival_js (curve_of ''TGH05'' ''male'') 65 (Suc (Suc (Suc (Suc (Suc (Suc 0))))))
     = Fin (415970078737443615 / 1000000000000000000)"
  by (simp_all add: curve_of_TGH05_male survival_js_Suc survival_js_0 length_ramp factor_js_def
        rate_at_def ramp_nth js_sub_def)

lemma payment_of_scenario_A: "payment_of scenario_A y = Fin 12000"
  by (simp add: payment_of_def scenario_defs)

lemma surv_of_scenario_A:
  "surv_of scenario_A k = survival_js (curve_of ''TGH05'' ''male'') 65 k"
  by (simp add: surv_of_def scenario_defs)

lemma proj_total_scenario_A_more:
  "proj_total scenario_A (Suc (Suc (Suc 0))) = Fin (1364480337 / 50000)"
  "proj_total scenario_A (Suc (Suc (Suc (Suc 0)))) = Fin (1701936238431 / 50000000)"
  "proj_total scenario_A (Suc (Suc (Suc (Suc (Suc 0))))) = Fin (1992485769563091 / 50000000000)"
  "proj_total scenario_A (Suc (Suc (Suc (Suc (Suc (Suc 0)))))) =
     Fin (2242067816805557169 / 50000000000000)"
  by (simp_all add: payment_of_scenario_A surv_of_scenario_A survival_65 survival_65_more)

lemma proj_point_scenario_A:
  "proj_point scenario_A (Suc 0) =
     \<lparr>year = 1, payment = Fin 12000, cumulativePayment = Fin 10428, probability = Fin (87 / 100)\<rparr>"
  "proj_point scenario_A (Suc (Suc 0)) =
     \<lparr>year = 2, payment = Fin 12000, cumulativePayment = Fin 19469, probability = Fin (75 / 100)\<rparr>"
  "proj_point scenario_A (Suc (Suc (Suc 0))) =
     \<lparr>year = 3, payment = Fin 12000, cumulativePayment = Fin 27290, probability = Fin (65 / 100)\<rparr>"
  "proj_point scenario_A (Suc (Suc (Suc (Suc 0)))) =
     \<lparr>year = 4, payment = Fin 12000, cumulativePayment = Fin 34039, probability = Fin (56 / 100)\<rparr>"
  "proj_point scenario_A (Suc (Suc (Suc (Suc (Suc 0))))) =
     \<lparr>year = 5, payment = Fin 12000, cumulativePayment = Fin 39850, probability = Fin (48 / 100)\<rparr>"
  "proj_point scenario_A (Suc (Suc (Suc (Suc (Suc (Suc 0)))))) =
     \<lparr>year = 6, payment = Fin 12000, cumulativePayment = Fin 44841, probability = Fin (42 / 100)\<rparr>"
  by (simp_all add: proj_point_def payment_of_scenario_A surv_of_scenario_A survival_65
        survival_65_more proj_total_scenario_A proj_total_scenario_A_more del: proj_total.simps)

lemma years_1_to_6:
  "[1..<Suc 6] = [Suc 0, Suc (Suc 0), Suc (Suc (Suc 0)), Suc (Suc (Suc (Suc 0))),
                  Suc (Suc (Suc (Suc (Suc 0)))), Suc (Suc (Suc (Suc (Suc (Suc 0)))))]"
  by (simp add: upt_rec)

lemma total_scenario_A: "js_round (proj_total scenario_A 6) = Fin 44841"
proof -
  have "(6::nat) = Suc (Suc (Suc (Suc (Suc (Suc 0)))))" by simp
  then show ?thesis
    by (simp only: proj_total_scenario_A_more) simp
qed

section \<open>Curve resolution and the end of the curve, on plain keys\<close>

text \<open>
  On plain keys a pair is not found exactly when the table id is none of the five tables
  or the sex is neither \<open>male\<close> nor \<open>female\<close>; it then resolves to the male curve of
  \<open>TGH05\<close>. From the end of the resolved curve on, age 100, the survival loop is left at
  once; at age 99 one year of mortality is still applied.
\<close>

lemma lookupCurve_None_iff:
  "lookupCurve tb g = None \<longleftrightarrow>
     tb \<notin> {''TGH05'', ''TGF05'', ''TV88-90'', ''TH00-02'', ''TF00-02''} \<or> g \<notin> {''male'', ''female''}"
  by (simp add: lookupCurve_def mortalityRates_def)

lemma plain_pair_not_found:
  assumes "plain_key tb" and "plain_key g" and "lookupCurve tb g = None"
  shows "resolveCurve tb g = Inr (ramp (1 / 1000) (2 / 1000) (3 / 10))
    \<and> calculateSurvivalProbability a g tb y = calculateSurvivalProbability a ''male'' ''TGH05'' y
    \<and> calculateLifeExpectancy a g tb = calculateLifeExpectancy a ''male'' ''TGH05''"
proof -
  have "resolveCurve tb g = Inr (ramp (1 / 1000) (2 / 1000) (3 / 10))"
    using assms(3) by (simp add: resolveCurve_def defaultCurve_eq)
  then show ?thesis
    by (simp add: resolve_TGH05_male calculateSurvivalProbability_def
          calculateLifeExpectancy_def lifeExpectancy_state_def)
qed

lemma survival_loop_beyond:
  "int (length rates) \<le> a \<Longrightarrow> 0 \<le> i \<Longrightarrow> survival_loop rates a y i p = p"
  by (subst survival_loop.simps) (simp add: Let_def)

lemma survival_beyond_curve:
  assumes "plain_key tb" and "plain_key g" and "100 \<le> a"
  shows "calculateSurvivalProbability a g tb y = Inr (Fin 1)"
  using assms(3) length_curve_of [of tb g]
  by (simp add: calculateSurvivalProbability_eq survival_loop_beyond)

lemma survival_last_age:
  "calculateSurvivalProbability 99 ''male'' ''TGH05'' 1 = Inr (Fin (801 / 1000))"
  by (simp add: calculateSurvivalProbability_def resolve_TGH05_male survival_loop.simps
        Let_def length_ramp rate_at_def ramp_nth js_sub_def)

section \<open>Claims about the mortality model\<close>

lemma survival_TGH05_male_minus1:
  "calculateSurvivalProbability (- 1) ''male'' ''TGH05'' 1 = Inr NaN"
  by (simp add: calculateSurvivalProbability_def resolve_TGH05_male survival_loop.simps
        Let_def length_ramp rate_at_def js_sub_def)

text \<open>
  Claim C7, amended. For every age of at least 0, and every sex and table id that are
  plain keys, the survival probability does not increase with the number of years: the
  value for \<open>m + 1\<close> years is a number not above the value for \<open>m\<close> years, and
  both lie between 0 and 1. (For a negative age the first rate read is \<open>undefined\<close>
  and the probability is \<open>NaN\<close>, which compares with nothing: see the counterexample
  below. What the source reads on a key that is not plain is left out.)
\<close>

theorem survival_nonincreasing:
  assumes "plain_key tb" and "plain_key g" and "0 \<le> a"
  shows "\<exists>x y. calculateSurvivalProbability a g tb (m + 1) = Inr (Fin x)
           \<and> calculateSurvivalProbability a g tb m = Inr (Fin y)
           \<and> js_le (Fin x) (Fin y) \<and> 0 \<le> x \<and> y \<le> 1"
proof (cases "0 \<le> m")
  case True
  then obtain n where m: "m = int n" using nonneg_int_cases by blast
  let ?s = "survival_real (curve_of tb g) (nat a)"
  have b: "\<And>x. x \<in> set (curve_of tb g) \<Longrightarrow> 0 \<le> x \<and> x \<le> 1"
    by (rule curve_of_bounds)
  have "calculateSurvivalProbability a g tb (m + 1) = Inr (Fin (?s (Suc n)))"
    using calculateSurvivalProbability_js [of a g tb "Suc n"] assms(3) m
    by (simp add: survival_js_Fin add.commute)
  moreover have "calculateSurvivalProbability a g tb m = Inr (Fin (?s n))"
    using calculateSurvivalProbability_js [of a g tb n] assms(3) m
    by (simp add: survival_js_Fin)
  moreover have "?s (Suc n) \<le> ?s n"
    using survival_real_mono [OF b] by simp
  moreover have "0 \<le> ?s (Suc n)" "?s n \<le> 1"
    using survival_real_bounds [OF b] by simp_all
  ultimately show ?thesis by simp
next
  case False
  then show ?thesis
    by (simp add: calculateSurvivalProbability_eq survival_loop_no_years)
qed

theorem survival_nonincreasing_witness:
  "plain_key ''TGH05'' \<and> plain_key ''male'' \<and> (0::int) \<le> 65
   \<and> calculateSurvivalProbability 65 ''male'' ''TGH05'' 1 = Inr (Fin (869 / 1000))
   \<and> calculateSurvivalProbability 65 ''male'' ''TGH05'' 0 = Inr (Fin 1)
   \<and> js_le (Fin (869 / 1000)) (Fin 1)"
proof -
  have h: "plain_key ''TGH05''" "plain_key ''male''" "(0::int) \<le> 65"
    by (simp_all add: plain_key_reference)
  have 1: "calculateSurvivalProbability 65 ''male'' ''TGH05'' 1 = Inr (Fin (869 / 1000))"
    by (simp add: calculateSurvivalProbability_def resolve_TGH05_male survival_loop.simps
          Let_def length_ramp rate_at_def ramp_nth js_sub_def)
  have 0: "calculateSurvivalProbability 65 ''male'' ''TGH05'' 0 = Inr (Fin 1)"
    by (simp add: calculateSurvivalProbability_eq survival_loop_no_years)
  show ?thesis
    using survival_nonincreasing [OF h, of 0] h(1,2) by (simp add: 0 1)
qed

text \<open>
  Claim C7 as stated, for every age, fails at age \<open>-1\<close>: the probability for one year
  is \<open>NaN\<close>, the probability for no year is 1, and \<open>NaN <= 1\<close> is false.
\<close>

theorem survival_negative_age_counterexample:
  "calculateSurvivalProbability (- 1) ''male'' ''TGH05'' 1 = Inr NaN
   \<and> calculateSurvivalProbability (- 1) ''male'' ''TGH05'' 0 = Inr (Fin 1)
   \<and> \<not> js_le NaN (Fin 1)"
proof -
  have "calculateSurvivalProbability (- 1) ''male'' ''TGH05'' 0 = Inr (Fin 1)"
    by (simp add: calculateSurvivalProbability_eq survival_loop_no_years)
  then show ?thesis
    by (simp add: survival_TGH05_male_minus1)
qed

text \<open>
  Claim C3, amended. For every age, and every sex and table id that are plain keys, the
  life expectancy is the sum, accumulated year by year from the left, of the running
  survival probabilities of the years \<open>1\<close> to \<open>n\<close>, rounded to one decimal place
  (\<open>Math.round(e * 10) / 10\<close>). The horizon is 50 years or the end of the curve,
  whichever comes first; \<open>n\<close> is the horizon, or the first year before it whose running
  probability is below 0.01. The running probability of year \<open>k\<close> is what
  \<open>calculateSurvivalProbability\<close> returns for \<open>k\<close> years, for every \<open>k\<close> up to 50.
\<close>

theorem lifeExpectancy_accumulates:
  assumes "plain_key tb" and "plain_key g"
  shows "\<exists>n. stops_at (survival_js (curve_of tb g) a)
          (min 50 (nat (int (length (curve_of tb g)) - a))) n
     \<and> calculateLifeExpectancy a g tb =
         Inr (js_div (js_round (js_mul (js_sum (survival_js (curve_of tb g) a) n) (Fin 10))) (Fin 10))
     \<and> resolveCurve tb g = Inr (curve_of tb g)
     \<and> (\<forall>k \<le> 50. calculateSurvivalProbability a g tb (int k)
                     = Inr (survival_js (curve_of tb g) a k))"
  using calculateLifeExpectancy_char [of tb g a]
  by (simp add: length_curve_of resolveCurve_Inr calculateSurvivalProbability_js)

theorem lifeExpectancy_accumulates_witness:
  "plain_key ''TGH05'' \<and> plain_key ''male''
   \<and> calculateLifeExpectancy 99 ''male'' ''TGH05'' = Inr (Fin (8 / 10))
   \<and> calculateSurvivalProbability 99 ''male'' ''TGH05'' 1 = Inr (Fin (801 / 1000))"
proof -
  let ?S = "survival_js (curve_of ''TGH05'' ''male'') 99"
  have h: "plain_key ''TGH05''" "plain_key ''male''"
    by (simp_all add: plain_key_reference)
  obtain n where st: "stops_at ?S (min 50 (nat (int (length (curve_of ''TGH05'' ''male'')) - 99))) n"
    and le: "calculateLifeExpectancy 99 ''male'' ''TGH05'' =
         Inr (js_div (js_round (js_mul (js_sum ?S n) (Fin 10))) (Fin 10))"
    and sp: "\<forall>k \<le> 50. calculateSurvivalProbability 99 ''male'' ''TGH05'' (int k) = Inr (?S k)"
    using lifeExpectancy_accumulates [OF h, of 99] by blast
  have "n = 1"
    using st by (auto simp: stops_at_def length_curve_of)
  moreover have s1: "?S (Suc 0) = Fin (801 / 1000)"
    by (simp add: survival_js_Suc survival_js_0 curve_of_TGH05_male length_ramp factor_js_def
          rate_at_def ramp_nth js_sub_def)
  ultimately have "calculateLifeExpectancy 99 ''male'' ''TGH05'' = Inr (Fin (8 / 10))"
    using le by simp
  moreover have "calculateSurvivalProbability 99 ''male'' ''TGH05'' 1 = Inr (Fin (801 / 1000))"
    using sp [rule_format, of "Suc 0"] s1 by simp
  ultimately show ?thesis
    using h by blast
qed

text \<open>
  Claim C3 as stated, that the loop stops early exactly when the running probability drops
  below 0.01 and never because the table is exhausted, fails at age 99: the loop is left
  with \<open>i = 1\<close>, after one of its 50 rounds, because age 100 is past the curve, while
  the running probability is 0.801.
\<close>

theorem lifeExpectancy_table_exhaustion_counterexample:
  "lifeExpectancy_state 99 ''male'' ''TGH05'' = Inr (1, Fin (801 / 1000), Fin (801 / 1000))
   \<and> \<not> js_lt (Fin (801 / 1000)) (Fin (1 / 100))
   \<and> calculateLifeExpectancy 99 ''male'' ''TGH05'' = Inr (Fin (8 / 10))"
  by (simp add: lifeExpectancy_state_99 lifeExpectancy_99)

section \<open>Claims about the valuation engine\<close>

text \<open>
  Claim C5, amended. For every parameter record whose table id and sex are plain keys,
  whose duration is below \<open>2 ^ 53\<close> and whose deferral period is above \<open>- 2 ^ 53\<close>,
  \<open>calculateAnnuity\<close> returns a result record. Its monthly payment is the rounding of
  a twelfth of the annual amount, it has at most 30 projection points, and the point of
  index \<open>i\<close> is that of year \<open>i + 1\<close>. For a negative age the record is not fully
  populated: the life expectancy is \<open>NaN\<close>, there is no projection point and the total
  of payments is 0. For an age of at least 0 the life expectancy is a number between 0 and
  50 and every probability is a number between 0 and 1. When moreover the spouse's age
  and the deferral period are at least 0, the interest rate, the growth rate and the
  reversal rate lie between 0 and 100 and the annual amount between 0 and \<open>10 ^ 9\<close>,
  every other field is a number too: the present value, the total of payments, and each
  payment and cumulative payment.
\<close>

theorem calculateAnnuity_total:
  assumes "plain_key (mortalityTable params)" and "plain_key (gender params)"
    and "(case duration params of None \<Rightarrow> 30 | Some d \<Rightarrow> d) < 2 ^ 53"
    and "- (2 ^ 53) < (case deferralPeriod params of None \<Rightarrow> 0 | Some d \<Rightarrow> d)"
  shows "\<exists>r. calculateAnnuity params = Inr r
    \<and> monthlyPayment r = Fin (of_int \<lfloor>annualAmount params / 12 + 1 / 2\<rfloor>)
    \<and> length (projections r) \<le> 30
    \<and> (\<forall>i < length (projections r). year (projections r ! i) = int i + 1)
    \<and> (age params < 0 \<longrightarrow>
          lifeExpectancy r = NaN \<and> projections r = [] \<and> totalPayments r = Fin 0)
    \<and> (0 \<le> age params \<longrightarrow>
          (\<exists>x. lifeExpectancy r = Fin x \<and> 0 \<le> x \<and> x \<le> 50)
        \<and> (\<forall>i < length (projections r).
              \<exists>q. probability (projections r ! i) = Fin q \<and> 0 \<le> q \<and> q \<le> 1))
    \<and> (0 \<le> age params
        \<and> 0 \<le> (case spouseAge params of None \<Rightarrow> age params - 3 | Some s \<Rightarrow> s)
        \<and> 0 \<le> interestRate params \<and> interestRate params \<le> 100
        \<and> 0 \<le> annualAmount params \<and> annualAmount params \<le> 10 ^ 9
        \<and> 0 \<le> (case deferralPeriod params of None \<Rightarrow> 0 | Some d \<Rightarrow> d)
        \<and> 0 \<le> (case growthRate params of None \<Rightarrow> 0 | Some x \<Rightarrow> x)
        \<and> (case growthRate params of None \<Rightarrow> 0 | Some x \<Rightarrow> x) \<le> 100
        \<and> 0 \<le> (case reversalRate params of None \<Rightarrow> 60 | Some x \<Rightarrow> x)
        \<and> (case reversalRate params of None \<Rightarrow> 60 | Some x \<Rightarrow> x) \<le> 100
        \<longrightarrow> (\<exists>v. presentValue r = Fin v) \<and> (\<exists>t. totalPayments r = Fin t)
          \<and> (\<forall>i < length (projections r).
                \<exists>y c. payment (projections r ! i) = Fin y
                  \<and> cumulativePayment (projections r ! i) = Fin c))"
proof -
  obtain r where r: "calculateAnnuity params = Inr r"
    by (simp add: calculateAnnuity_closed)
  note f = calculateAnnuity_fields [OF r]
  have monthly: "monthlyPayment r = Fin (of_int \<lfloor>annualAmount params / 12 + 1 / 2\<rfloor>)"
    by (simp add: f(2))
  have len: "length (projections r) \<le> 30"
    unfolding projections_count [OF r]
    by (cases "le_value params") (simp_all add: proj_count_Fin, simp_all add: proj_count_def)
  have years: "year (projections r ! i) = int i + 1" if "i < length (projections r)" for i
    by (simp add: projections_nth [OF r that] proj_point_def)
  have neg: "lifeExpectancy r = NaN \<and> projections r = [] \<and> totalPayments r = Fin 0"
    if "age params < 0"
    using r calculateAnnuity_negative_age [OF that] by auto
  have le: "\<exists>x. lifeExpectancy r = Fin x \<and> 0 \<le> x \<and> x \<le> 50" if "0 \<le> age params"
    using le_value_bounds [OF that] by (simp add: f(4))
  have total: "\<exists>t. totalPayments r = Fin t" if "0 \<le> age params"
    using proj_total_Fin [OF that, of "proj_count (le_value params)"] by (auto simp: f(3))
  have points: "(\<exists>q. probability (projections r ! i) = Fin q \<and> 0 \<le> q \<and> q \<le> 1)
      \<and> (\<exists>y c. payment (projections r ! i) = Fin y
            \<and> cumulativePayment (projections r ! i) = Fin c)"
    if "0 \<le> age params" "i < length (projections r)" for i
    using proj_point_Fin [OF that(1), of i] unfolding projections_nth [OF r that(2)] by blast
  have pv: "\<exists>v. presentValue r = Fin v"
    if "0 \<le> age params"
      "0 \<le> (case spouseAge params of None \<Rightarrow> age params - 3 | Some s \<Rightarrow> s)"
      "0 \<le> interestRate params"
      "0 \<le> (case growthRate params of None \<Rightarrow> 0 | Some x \<Rightarrow> x)"
    using pv_value_Fin [of params] that
    by (auto simp: f(1) spouseAge_of_def growthRate_of_def)
  show ?thesis
    using r monthly len years neg le total points pv by blast
qed

text \<open>
  Scenario A in full: present value 61982, monthly payment 1000, total of payments 44841,
  life expectancy 6 and six projection points.
\<close>

theorem calculateAnnuity_total_witness:
  "plain_key (mortalityTable scenario_A) \<and> plain_key (gender scenario_A)
   \<and> (case duration scenario_A of None \<Rightarrow> 30 | Some d \<Rightarrow> d) < 2 ^ 53
   \<and> - (2 ^ 53) < (case deferralPeriod scenario_A of None \<Rightarrow> 0 | Some d \<Rightarrow> d)
   \<and> 0 \<le> age scenario_A
   \<and> 0 \<le> (case spouseAge scenario_A of None \<Rightarrow> age scenario_A - 3 | Some s \<Rightarrow> s)
   \<and> 0 \<le> interestRate scenario_A \<and> interestRate scenario_A \<le> 100
   \<and> 0 \<le> annualAmount scenario_A \<and> annualAmount scenario_A \<le> 10 ^ 9
   \<and> 0 \<le> (case deferralPeriod scenario_A of None \<Rightarrow> 0 | Some d \<Rightarrow> d)
   \<and> 0 \<le> (case growthRate scenario_A of None \<Rightarrow> 0 | Some x \<Rightarrow> x)
   \<and> (case growthRate scenario_A of None \<Rightarrow> 0 | Some x \<Rightarrow> x) \<le> 100
   \<and> 0 \<le> (case reversalRate scenario_A of None \<Rightarrow> 60 | Some x \<Rightarrow> x)
   \<and> (case reversalRate scenario_A of None \<Rightarrow> 60 | Some x \<Rightarrow> x) \<le> 100
   \<and> calculateAnnuity scenario_A =
       Inr \<lparr>presentValue = Fin 61982, monthlyPayment = Fin 1000, totalPayments = Fin 44841,
            lifeExpectancy = Fin 6,
            projections =
              [\<lparr>year = 1, payment = Fin 12000, cumulativePayment = Fin 10428, probability = Fin (87 / 100)\<rparr>,
               \<lparr>year = 2, payment = Fin 12000, cumulativePayment = Fin 19469, probability = Fin (75 / 100)\<rparr>,
               \<lparr>year = 3, payment = Fin 12000, cumulativePayment = Fin 27290, probability = Fin (65 / 100)\<rparr>,
               \<lparr>year = 4, payment = Fin 12000, cumulativePayment = Fin 34039, probability = Fin (56 / 100)\<rparr>,
               \<lparr>year = 5, payment = Fin 12000, cumulativePayment = Fin 39850, probability = Fin (48 / 100)\<rparr>,
               \<lparr>year = 6, payment = Fin 12000, cumulativePayment = Fin 44841, probability = Fin (42 / 100)\<rparr>]\<rparr>"
proof -
  have h: "plain_key (mortalityTable scenario_A)" "plain_key (gender scenario_A)"
    "(case duration scenario_A of None \<Rightarrow> 30 | Some d \<Rightarrow> d) < 2 ^ 53"
    "- (2 ^ 53) < (case deferralPeriod scenario_A of None \<Rightarrow> 0 | Some d \<Rightarrow> d)"
    by (simp_all add: scenario_defs plain_key_reference)
  have range: "0 \<le> age scenario_A"
    "0 \<le> (case spouseAge scenario_A of None \<Rightarrow> age scenario_A - 3 | Some s \<Rightarrow> s)"
    "0 \<le> interestRate scenario_A" "interestRate scenario_A \<le> 100"
    "0 \<le> annualAmount scenario_A" "annualAmount scenario_A \<le> 10 ^ 9"
    "0 \<le> (case deferralPeriod scenario_A of None \<Rightarrow> 0 | Some d \<Rightarrow> d)"
    "0 \<le> (case growthRate scenario_A of None \<Rightarrow> 0 | Some x \<Rightarrow> x)"
    "(case growthRate scenario_A of None \<Rightarrow> 0 | Some x \<Rightarrow> x) \<le> 100"
    "0 \<le> (case reversalRate scenario_A of None \<Rightarrow> 60 | Some x \<Rightarrow> x)"
    "(case reversalRate scenario_A of None \<Rightarrow> 60 | Some x \<Rightarrow> x) \<le> 100"
    by (simp_all add: scenario_defs)
  obtain r where r: "calculateAnnuity scenario_A = Inr r"
    and "monthlyPayment r = Fin (of_int \<lfloor>annualAmount scenario_A / 12 + 1 / 2\<rfloor>)"
    using calculateAnnuity_total [OF h] by blast
  then have m: "monthlyPayment r = Fin 1000"
    by (simp add: scenario_defs)
  note f = calculateAnnuity_fields [OF r]
  have c: "proj_count (le_value scenario_A) = 6"
    by (simp add: le_value_scenario_A proj_count_Fin)
  have pv: "presentValue r = Fin 61982"
    by (simp only: f(1) pv_value_scenario_A)
  have tot: "totalPayments r = Fin 44841"
    by (simp only: f(3) c total_scenario_A)
  have le: "lifeExpectancy r = Fin 6"
    by (simp only: f(4) le_value_scenario_A)
  have pr: "projections r =
              [\<lparr>year = 1, payment = Fin 12000, cumulativePayment = Fin 10428, probability = Fin (87 / 100)\<rparr>,
               \<lparr>year = 2, payment = Fin 12000, cumulativePayment = Fin 19469, probability = Fin (75 / 100)\<rparr>,
               \<lparr>year = 3, payment = Fin 12000, cumulativePayment = Fin 27290, probability = Fin (65 / 100)\<rparr>,
               \<lparr>year = 4, payment = Fin 12000, cumulativePayment = Fin 34039, probability = Fin (56 / 100)\<rparr>,
               \<lparr>year = 5, payment = Fin 12000, cumulativePayment = Fin 39850, probability = Fin (48 / 100)\<rparr>,
               \<lparr>year = 6, payment = Fin 12000, cumulativePayment = Fin 44841, probability = Fin (42 / 100)\<rparr>]"
    by (simp only: f(5) c years_1_to_6 list.map proj_point_scenario_A)
  have "r = \<lparr>presentValue = presentValue r, monthlyPayment = monthlyPayment r,
             totalPayments = totalPayments r, lifeExpectancy = lifeExpectancy r,
             projections = projections r\<rparr>"
    by simp
  then have "r = \<lparr>presentValue = Fin 61982, monthlyPayment = Fin 1000, totalPayments = Fin 44841,
            lifeExpectancy = Fin 6,
            projections =
              [\<lparr>year = 1, payment = Fin 12000, cumulativePayment = Fin 10428, probability = Fin (87 / 100)\<rparr>,
               \<lparr>year = 2, payment = Fin 12000, cumulativePayment = Fin 19469, probability = Fin (75 / 100)\<rparr>,
               \<lparr>year = 3, payment = Fin 12000, cumulativePayment = Fin 27290, probability = Fin (65 / 100)\<rparr>,
               \<lparr>year = 4, payment = Fin 12000, cumulativePayment = Fin 34039, probability = Fin (56 / 100)\<rparr>,
               \<lparr>year = 5, payment = Fin 12000, cumulativePayment = Fin 39850, probability = Fin (48 / 100)\<rparr>,
               \<lparr>year = 6, payment = Fin 12000, cumulativePayment = Fin 44841, probability = Fin (42 / 100)\<rparr>]\<rparr>"
    by (simp only: pv m tot le pr)
  with r h range show ?thesis
    by (simp only: simp_thms)
qed

text \<open>
  Claim C5 as stated, that every record, a negative age included, gives a fully populated
  result, fails at age \<open>-1\<close> (scenario A otherwise): the present value and the life
  expectancy are \<open>NaN\<close> and the projection sequence is empty.
\<close>

theorem calculateAnnuity_negative_age_counterexample:
  "presentValue (projr (calculateAnnuity scenario_negative_age)) = NaN
   \<and> lifeExpectancy (projr (calculateAnnuity scenario_negative_age)) = NaN
   \<and> projections (projr (calculateAnnuity scenario_negative_age)) = []"
proof -
  have a: "age scenario_negative_age < 0"
    by (simp add: scenario_defs)
  have "presentValue_of scenario_negative_age = Inr NaN"
    by (simp add: presentValue_of_def scenario_defs calculateSimpleAnnuity_NaN)
  then have "pv_value scenario_negative_age = NaN"
    by (simp add: pv_value_def)
  then show ?thesis
    by (simp add: calculateAnnuity_negative_age [OF a])
qed

text \<open>
  Claim C10. The monthly payment depends on the annual amount only: when the engine returns
  a result for each of two parameter records with the same annual amount, whatever their
  types, ages, sexes, rates and tables, the two results have the same monthly payment, the
  rounding of a twelfth of the annual amount.
\<close>

theorem monthlyPayment_only_annualAmount:
  assumes "annualAmount p = annualAmount q"
    and "calculateAnnuity p = Inr r" and "calculateAnnuity q = Inr s"
  shows "monthlyPayment r = monthlyPayment s
    \<and> monthlyPayment r = js_round (Fin (annualAmount p / 12))"
  using assms by (simp add: calculateAnnuity_fields(2))

theorem monthlyPayment_only_annualAmount_witness:
  "annualAmount scenario_A = annualAmount scenario_deferred
   \<and> (\<exists>r s. calculateAnnuity scenario_A = Inr r \<and> calculateAnnuity scenario_deferred = Inr s
          \<and> monthlyPayment r = monthlyPayment s \<and> monthlyPayment r = Fin 1000)"
proof -
  have h: "annualAmount scenario_A = annualAmount scenario_deferred"
    by (simp add: scenario_defs)
  obtain r where r: "calculateAnnuity scenario_A = Inr r"
    by (simp add: calculateAnnuity_closed)
  obtain s where s: "calculateAnnuity scenario_deferred = Inr s"
    by (simp add: calculateAnnuity_closed)
  have v: "js_round (Fin (annualAmount scenario_A / 12)) = Fin 1000"
    by (simp add: scenario_defs)
  note t = monthlyPayment_only_annualAmount [OF h r s]
  have "monthlyPayment r = js_round (Fin (annualAmount scenario_A / 12))"
    using t by (rule conjunct2)
  then have "monthlyPayment r = Fin 1000"
    by (simp only: v)
  moreover have "monthlyPayment r = monthlyPayment s"
    using t by (rule conjunct1)
  ultimately show ?thesis
    using h r s by blast
qed

text \<open>
  Claim C4. For every parameter record with an age of at least 0 (every valid record has
  one), the life expectancy in the result is a number \<open>x\<close> and the projection sequence
  has \<open>min(30, ceil(x))\<close> entries. The length does not depend on the annuity type:
  replacing the type by any other gives a sequence of the same length. In scenario B, a
  temporary annuity of 5 years, the sequence has 6 entries and the sixth payment is 0.
\<close>

theorem projections_length:
  assumes "0 \<le> age params"
  shows "\<exists>r x. calculateAnnuity params = Inr r \<and> lifeExpectancy r = Fin x
           \<and> int (length (projections r)) = min 30 \<lceil>x\<rceil>
           \<and> (\<forall>ty. \<exists>r'. calculateAnnuity (params\<lparr>annuityType := ty\<rparr>) = Inr r'
                    \<and> length (projections r') = length (projections r))"
proof -
  obtain x where x: "le_value params = Fin x" "0 \<le> x"
    using le_value_Fin [OF assms] by blast
  obtain r where r: "calculateAnnuity params = Inr r"
    by (simp add: calculateAnnuity_closed)
  have "int (length (projections r)) = min 30 \<lceil>x\<rceil>"
    using x by (simp add: projections_count [OF r] proj_count_Fin)
  moreover have "\<exists>r'. calculateAnnuity (params\<lparr>annuityType := ty\<rparr>) = Inr r'
                    \<and> length (projections r') = length (projections r)" for ty
  proof -
    obtain r' where r': "calculateAnnuity (params\<lparr>annuityType := ty\<rparr>) = Inr r'"
      by (simp add: calculateAnnuity_closed)
    then show ?thesis
      by (simp add: projections_count [OF r] projections_count [OF r'])
  qed
  ultimately show ?thesis
    using r x calculateAnnuity_fields(4) [OF r] by auto
qed

theorem projections_length_witness:
  "0 \<le> age scenario_B
   \<and> (\<exists>r. calculateAnnuity scenario_B = Inr r \<and> lifeExpectancy r = Fin 6
          \<and> length (projections r) = 6 \<and> payment (projections r ! 5) = Fin 0)"
proof -
  have h: "0 \<le> age scenario_B" by (simp add: scenario_defs)
  obtain r x where r: "calculateAnnuity scenario_B = Inr r" "lifeExpectancy r = Fin x"
    "int (length (projections r)) = min 30 \<lceil>x\<rceil>"
    using projections_length [OF h] by blast
  have "lifeExpectancy r = Fin 6"
    using calculateAnnuity_fields(4) [OF r(1)] by (simp add: le_value_scenarios)
  with r have len: "length (projections r) = 6" by simp
  have "payment_of scenario_B 6 = Fin 0"
    by (simp add: payment_of_def scenario_defs duration_of_def)
  then have "payment (projections r ! 5) = Fin 0"
    using len by (simp add: projections_nth [OF r(1)] proj_point_def)
  with r h len \<open>lifeExpectancy r = Fin 6\<close> show ?thesis by blast
qed

text \<open>
  Claim C2. For every parameter record of type \<open>growing\<close> and every index \<open>i\<close> of the
  projection sequence, the entry is that of year \<open>i + 1\<close> and its payment is the
  rounding of \<open>annualAmount * (1 + growthRate / 100) ^ i\<close>, the exponent being
  \<open>year - 1\<close>.
\<close>

theorem growing_projection_payment:
  assumes "annuityType params = ''growing''"
    and "calculateAnnuity params = Inr r"
    and "i < length (projections r)"
  shows "year (projections r ! i) = int i + 1
    \<and> payment (projections r ! i) =
        js_round (Fin (annualAmount params * (1 + growthRate_of params / 100) ^ i))"
  using payment_of_growing [OF assms(1), of i]
  by (simp add: projections_nth [OF assms(2,3)] proj_point_def del: of_nat_Suc)

theorem growing_projection_payment_witness:
  "annuityType scenario_growing = ''growing''
   \<and> (\<exists>r. calculateAnnuity scenario_growing = Inr r \<and> 2 < length (projections r)
          \<and> year (projections r ! 2) = 3 \<and> payment (projections r ! 2) = Fin 12731)"
proof -
  have h: "annuityType scenario_growing = ''growing''"
    by (simp add: scenario_defs)
  obtain r where r: "calculateAnnuity scenario_growing = Inr r"
    by (simp add: calculateAnnuity_closed)
  have len: "2 < length (projections r)"
    by (simp add: projections_count [OF r] le_value_scenarios proj_count_Fin)
  have pay: "js_round (Fin (annualAmount scenario_growing
                * (1 + growthRate_of scenario_growing / 100) ^ 2)) = Fin 12731"
    by (simp add: scenario_defs growthRate_of_def power2_eq_square)
  note at_2 = growing_projection_payment [OF h r len]
  have "payment (projections r ! 2) = Fin 12731"
    by (simp only: at_2 pay)
  moreover have "year (projections r ! 2) = 3"
    using at_2 by simp
  ultimately show ?thesis
    using h r len by blast
qed

text \<open>
  Claim C9, amended. For every parameter record whose result has a non-empty projection
  sequence, the cumulative payment of the last entry equals the \<open>totalPayments\<close> field:
  both round the same running sum. When no yearly payment is negative, that is when the
  annual amount is at least 0 and, for type \<open>growing\<close>, the growth rate is at least
  \<open>-100\<close>, the cumulative payment does not decrease along the sequence.
\<close>

theorem cumulative_payments:
  assumes "calculateAnnuity params = Inr r" and "projections r \<noteq> []"
  shows "cumulativePayment (last (projections r)) = totalPayments r
    \<and> (0 \<le> annualAmount params
         \<and> (annuityType params = ''growing'' \<longrightarrow> - 100 \<le> growthRate_of params)
       \<longrightarrow> (\<forall>i j. i \<le> j \<and> j < length (projections r)
             \<longrightarrow> js_le (cumulativePayment (projections r ! i))
                       (cumulativePayment (projections r ! j))))"
proof -
  let ?N = "proj_count (le_value params)"
  have N: "1 \<le> ?N"
    using assms(2) projections_count [OF assms(1)] by (cases "projections r") auto
  have "last (projections r) = proj_point params ?N"
    using N unfolding calculateAnnuity_fields(5) [OF assms(1)]
    by (simp add: last_map del: upt_Suc)
  then have first: "cumulativePayment (last (projections r)) = totalPayments r"
    by (simp add: calculateAnnuity_fields(3) [OF assms(1)] proj_point_def)
  have age: "0 \<le> age params"
  proof (rule ccontr)
    assume "\<not> 0 \<le> age params"
    then have "le_value params = NaN" by (simp add: le_value_NaN)
    with N show False by (simp add: proj_count_def)
  qed
  have "js_le (cumulativePayment (projections r ! i)) (cumulativePayment (projections r ! j))"
    if pos: "0 \<le> annualAmount params"
      "annuityType params = ''growing'' \<longrightarrow> - 100 \<le> growthRate_of params"
      and ij: "i \<le> j" "j < length (projections r)" for i j
  proof -
    obtain t t' where "proj_total params (Suc i) = Fin t" "proj_total params (Suc j) = Fin t'"
      "t \<le> t'"
      using proj_total_mono [OF age pos, of "Suc i" "Suc j"] ij by auto
    then show ?thesis
      using ij js_round_mono [of t t']
      by (simp add: projections_nth [OF assms(1)] proj_point_def del: proj_total.simps)
  qed
  with first show ?thesis by blast
qed

theorem cumulative_payments_witness:
  "\<exists>r. calculateAnnuity scenario_A = Inr r \<and> projections r \<noteq> []
      \<and> 0 \<le> annualAmount scenario_A \<and> annuityType scenario_A \<noteq> ''growing''
      \<and> cumulativePayment (last (projections r)) = totalPayments r
      \<and> cumulativePayment (projections r ! 0) = Fin 10428
      \<and> cumulativePayment (projections r ! 1) = Fin 19469
      \<and> js_le (cumulativePayment (projections r ! 0)) (cumulativePayment (projections r ! 1))"
proof -
  obtain r where r: "calculateAnnuity scenario_A = Inr r"
    by (simp add: calculateAnnuity_closed)
  have len: "length (projections r) = 6"
    by (simp add: projections_count [OF r] le_value_scenario_A proj_count_Fin)
  then have ne: "projections r \<noteq> []" by auto
  have pos: "0 \<le> annualAmount scenario_A" "annuityType scenario_A \<noteq> ''growing''"
    by (simp_all add: scenario_defs)
  have c0: "cumulativePayment (projections r ! 0) = Fin 10428"
    using len by (simp add: projections_nth [OF r] proj_point_def proj_total_scenario_A
        del: proj_total.simps)
  have c1: "cumulativePayment (projections r ! 1) = Fin 19469"
    using len by (simp add: projections_nth [OF r] proj_point_def proj_total_scenario_A
        del: proj_total.simps)
  have "js_le (cumulativePayment (projections r ! 0)) (cumulativePayment (projections r ! 1))"
    using cumulative_payments [OF r ne] pos len by simp
  moreover have "cumulativePayment (last (projections r)) = totalPayments r"
    using cumulative_payments [OF r ne] by simp
  ultimately show ?thesis
    using r ne pos c0 c1 by blast
qed

text \<open>
  Claim C9 as stated, for every parameter record, fails for a growth rate of \<open>-200\<close>
  (age 65, male, TGH05, annual amount 12000): the payment of year 2 is \<open>-12000\<close>, and
  the cumulative payment falls from 10428 to 1387.
\<close>

theorem cumulative_payments_counterexample:
  "length (projections (projr (calculateAnnuity scenario_shrinking))) = 6
   \<and> cumulativePayment (projections (projr (calculateAnnuity scenario_shrinking)) ! 0) = Fin 10428
   \<and> cumulativePayment (projections (projr (calculateAnnuity scenario_shrinking)) ! 1) = Fin 1387
   \<and> \<not> js_le (Fin 10428) (Fin 1387)"
proof -
  obtain r where r: "calculateAnnuity scenario_shrinking = Inr r"
    by (simp add: calculateAnnuity_closed)
  have len: "length (projections r) = 6"
    by (simp add: projections_count [OF r] le_value_scenarios proj_count_Fin)
  have c0: "cumulativePayment (projections r ! 0) = Fin 10428"
    using len by (simp add: projections_nth [OF r] proj_point_def proj_total_scenario_shrinking
        del: proj_total.simps)
  have c1: "cumulativePayment (projections r ! 1) = Fin 1387"
    using len by (simp add: projections_nth [OF r] proj_point_def proj_total_scenario_shrinking
        del: proj_total.simps)
  show ?thesis
    using len c0 c1 by (simp add: r)
qed

text \<open>
  Claim C1. For every parameter record of type \<open>reversible\<close> whose table id and sex are
  plain keys and for which the engine returns a result, the present value before the final
  rounding is \<open>prim + sp * 0.6\<close>, where \<open>prim\<close> is the simple-annuity value for the
  primary age and sex and the annual amount, and \<open>sp\<close> is the simple-annuity value for
  the spouse's age (the record's \<open>spouseAge\<close>, or the primary age less 3 when it is
  absent), the opposite sex (\<open>female\<close> for \<open>male\<close>, otherwise \<open>male\<close>) and the
  amount \<open>annualAmount * (reversalRate / 100)\<close> (the record's \<open>reversalRate\<close>, or 60
  when it is absent), both at the discount rate \<open>interestRate / 100\<close>; the result's
  \<open>presentValue\<close> is its rounding. Each component is the sum over the years \<open>1\<close> to
  its own stopping year of \<open>amount * survival(t) * (1 + r) ^ (- t)\<close>, the stopping year
  being 50 or the first year before it whose survival probability is below 0.01.
\<close>

theorem reversible_presentValue:
  assumes "annuityType params = ''reversible''"
    and "plain_key (mortalityTable params)" and "plain_key (gender params)"
    and "calculateAnnuity params = Inr r"
  shows "\<exists>prim sp n m.
      calculateSimpleAnnuity (age params) (gender params) (mortalityTable params)
          (annualAmount params) (interestRate params / 100) = Inr prim
    \<and> calculateSimpleAnnuity (case spouseAge params of None \<Rightarrow> age params - 3 | Some s \<Rightarrow> s)
          (if gender params = ''male'' then ''female'' else ''male'') (mortalityTable params)
          (annualAmount params * ((case reversalRate params of None \<Rightarrow> 60 | Some x \<Rightarrow> x) / 100))
          (interestRate params / 100)
        = Inr sp
    \<and> presentValue_of params = Inr (js_add prim (js_mul sp (Fin (6 / 10))))
    \<and> presentValue r = js_round (js_add prim (js_mul sp (Fin (6 / 10))))
    \<and> stops_at (survival_js (curve_of (mortalityTable params) (gender params)) (age params)) 50 n
    \<and> prim = js_sum (simple_term (age params) (gender params) (mortalityTable params)
                       (annualAmount params) (interestRate params / 100)) n
    \<and> stops_at (survival_js (curve_of (mortalityTable params)
                   (if gender params = ''male'' then ''female'' else ''male''))
                 (case spouseAge params of None \<Rightarrow> age params - 3 | Some s \<Rightarrow> s)) 50 m
    \<and> sp = js_sum (simple_term (case spouseAge params of None \<Rightarrow> age params - 3 | Some s \<Rightarrow> s)
                     (if gender params = ''male'' then ''female'' else ''male'')
                     (mortalityTable params)
                     (annualAmount params
                        * ((case reversalRate params of None \<Rightarrow> 60 | Some x \<Rightarrow> x) / 100))
                     (interestRate params / 100)) m"
proof -
  let ?g' = "if gender params = ''male'' then ''female'' else ''male''"
  let ?sa = "case spouseAge params of None \<Rightarrow> age params - 3 | Some s \<Rightarrow> s"
  let ?amount' = "annualAmount params
      * ((case reversalRate params of None \<Rightarrow> 60 | Some x \<Rightarrow> x) / 100)"
  let ?r = "interestRate params / 100"
  obtain n where n: "stops_at (survival_js (curve_of (mortalityTable params) (gender params))
        (age params)) 50 n"
    and prim: "calculateSimpleAnnuity (age params) (gender params) (mortalityTable params)
        (annualAmount params) ?r
      = Inr (js_sum (simple_term (age params) (gender params) (mortalityTable params)
               (annualAmount params) ?r) n)"
    using calculateSimpleAnnuity_char by blast
  obtain m where m: "stops_at (survival_js (curve_of (mortalityTable params) ?g') ?sa) 50 m"
    and sp: "calculateSimpleAnnuity ?sa ?g' (mortalityTable params) ?amount' ?r
      = Inr (js_sum (simple_term ?sa ?g' (mortalityTable params) ?amount' ?r) m)"
    using calculateSimpleAnnuity_char by blast
  let ?prim = "js_sum (simple_term (age params) (gender params) (mortalityTable params)
               (annualAmount params) ?r) n"
  let ?sp = "js_sum (simple_term ?sa ?g' (mortalityTable params) ?amount' ?r) m"
  have pv: "presentValue_of params = Inr (js_add ?prim (js_mul ?sp (Fin (6 / 10))))"
    using assms(1)
    by (simp only: presentValue_of_def Let_def calculateReversibleAnnuity_def prim sp sum.case
          spouseAge_of_def reversalRate_of_def)
       simp
  then have "pv_value params = js_add ?prim (js_mul ?sp (Fin (6 / 10)))"
    by (simp only: pv_value_def sum.case)
  then have "presentValue r = js_round (js_add ?prim (js_mul ?sp (Fin (6 / 10))))"
    by (simp only: calculateAnnuity_fields(1) [OF assms(4)])
  with n m prim sp pv show ?thesis
    by blast
qed

text \<open>
  A reversible annuity with a spouse of 60 and a reversal rate of 80 (neither is the
  default): the spouse's component is the simple annuity of 9600 a year for a woman of 60,
  and the present value is 97109.
\<close>

theorem reversible_presentValue_witness:
  "annuityType scenario_R = ''reversible''
   \<and> plain_key (mortalityTable scenario_R) \<and> plain_key (gender scenario_R)
   \<and> spouseAge scenario_R = Some 60 \<and> reversalRate scenario_R = Some 80
   \<and> calculateSimpleAnnuity 65 ''male'' ''TGH05'' 12000 (1 / 40) =
       Inr (Fin (1507625951485278204408952749403598516323015889934581780572684784572291646482464
                 / 24323746569986683863746296030455721135042523428637650795280933380126953125))
   \<and> calculateSimpleAnnuity 60 ''female'' ''TGH05'' 9600 (1 / 40) =
       Inr (Fin (61521483998562355600339660690608751815740848123454059868377108195833769242241056404129045956245844536598845858717696
                 / 1050833195578006328421065945097408858839833776562168767622469972005815226634428682928046328015625476837158203125))
   \<and> (\<exists>r. calculateAnnuity scenario_R = Inr r \<and> presentValue r = Fin 97109)"
proof -
  have h: "annuityType scenario_R = ''reversible''"
    "plain_key (mortalityTable scenario_R)" "plain_key (gender scenario_R)"
    by (simp_all add: scenario_defs plain_key_reference)
  have f: "age scenario_R = 65" "gender scenario_R = ''male''"
    "mortalityTable scenario_R = ''TGH05''" "annualAmount scenario_R = 12000"
    "interestRate scenario_R / 100 = 1 / 40"
    "spouseAge scenario_R = Some 60" "reversalRate scenario_R = Some 80"
    by (simp_all add: scenario_defs)
  have g: "(if ''male'' = ''male'' then ''female'' else ''male'') = ''female''"
    "(12000::real) * (80 / 100) = 9600"
    by simp_all
  obtain r where r: "calculateAnnuity scenario_R = Inr r"
    by (simp add: calculateAnnuity_closed)
  obtain prim sp where
    prim: "calculateSimpleAnnuity 65 ''male'' ''TGH05'' 12000 (1 / 40) = Inr prim"
    and sp: "calculateSimpleAnnuity 60 ''female'' ''TGH05'' 9600 (1 / 40) = Inr sp"
    and pv: "presentValue r = js_round (js_add prim (js_mul sp (Fin (6 / 10))))"
    using reversible_presentValue [OF h r] unfolding f option.case g by blast
  have "presentValue r = Fin 97109"
    using prim sp unfolding pv simple_65_male simple_60_female by auto
  with h f(6,7) r show ?thesis
    by (simp only: simple_65_male simple_60_female simp_thms) blast
qed

end
